theory Spec2Isabelle
  imports Complex_Main
begin

section \<open>Data model\<close>

text \<open>
  The four scripts exchange a table of yearly records through CSV files. A Python float is
  modelled as a \<^typ>\<open>real\<close>: arithmetic is the exact arithmetic that IEEE doubles
  approximate, except in policy B's radius, where every operation is rounded, and a missing
  value (pandas NaN, Python None) is \<open>None\<close>. Years are
  Python/numpy integers, modelled as \<^typ>\<open>int\<close>; \<open>div\<close> and \<open>mod\<close> on \<^typ>\<open>int\<close> round
  towards minus infinity, as \<open>//\<close> and \<open>%\<close> do in Python and numpy.
\<close>

datatype py_error = FileNotFoundError | IndexError | KeyError | TypeError | ValueError
  | AttributeError | RequestException | JSONDecodeError

record sea_level_record =
  Year :: int
  Mean_Sea_Level_m :: "real option"
  Mean_Higher_High_Water_m :: "real option"
  Mean_Lower_High_Water_m :: "real option"
  Mean_Higher_Low_Water_m :: "real option"
  Mean_Lower_Low_Water_m :: "real option"

type_synonym dataframe = "sea_level_record list"

section \<open>Animators: animated_sea_level.py (policy A), polarCoordVisualization.py (policy B)\<close>

subsection \<open>load_sea_level_data\<close>

text \<open>
  \<open>df.dropna(subset=['Mean_Sea_Level_m'])\<close>. The animators read only the columns
  \<open>Year\<close> and \<open>Mean_Sea_Level_m\<close> of the result, so the loaded table is kept as the
  list of (year, level) pairs of the rows that survive.
\<close>

definition dropna_msl :: "dataframe \<Rightarrow> (int \<times> real) list" where
  "dropna_msl df =
     List.map_filter (\<lambda>r. map_option (\<lambda>l. (Year r, l)) (Mean_Sea_Level_m r)) df"

datatype report = Data_file_not_found

text \<open>
  The argument is what \<open>pd.read_csv\<close> does on the fixed file name: it raises
  (\<open>Inl\<close>) or returns the table. The result is the list of printed reports and either
  an exception leaving the function (\<open>Inl\<close>) or the returned value, where \<open>None\<close> is
  Python's \<open>None\<close>. Only \<open>FileNotFoundError\<close> is caught.
\<close>

definition load_sea_level_data ::
  "py_error + dataframe \<Rightarrow> report list \<times> (py_error + (int \<times> real) list option)" where
  "load_sea_level_data read_csv =
     (case read_csv of
        Inr df \<Rightarrow> ([], Inr (Some (dropna_msl df)))
      | Inl FileNotFoundError \<Rightarrow> ([Data_file_not_found], Inr None)
      | Inl e \<Rightarrow> ([], Inl e))"

subsection \<open>Coordinate mapping\<close>

text \<open>
  A numpy float64 that can be non-finite: \<open>None\<close> stands for nan or an infinity.
  numpy division by zero gives such a value (with a warning, no exception).
\<close>

type_synonym float64 = "real option"

definition np_div :: "real \<Rightarrow> real \<Rightarrow> float64" where
  "np_div a b = (if b = 0 then None else Some (a / b))"

definition angle_of :: "int \<Rightarrow> real" where
  "angle_of year = (let year_in_decade = year mod 10
                    in (real_of_int year_in_decade / 10) * 2 * pi)"

definition radius_A :: "int \<Rightarrow> real \<Rightarrow> real" where
  "radius_A year level =
     (let decade = year div 10 - 195;
          level_offset = (level - 1.35) * 5
      in real_of_int decade + 1 + level_offset)"

text \<open>
  Policy B's radius is where rounding decides a claim, so there each float64 operation is
  modelled with its rounding: \<open>round64\<close> rounds a real to the nearest float64, ties to
  the even significand (53 bits, gradual underflow below \<open>2 ^ - 1022\<close>), and \<open>fl64\<close>
  gives \<open>None\<close>, an infinity, when the rounded value leaves the finite range.
\<close>

definition rne :: "real \<Rightarrow> int" where
  "rne t = (let f = \<lfloor>t\<rfloor>; d = t - real_of_int f
            in if d < 1 / 2 then f else if 1 / 2 < d then f + 1
               else if even f then f else f + 1)"

definition binade :: "real \<Rightarrow> int" where
  "binade x = max \<lfloor>log 2 \<bar>x\<bar>\<rfloor> (- 1022)"

definition ulp :: "real \<Rightarrow> real" where
  "ulp x = 2 powr (real_of_int (binade x) - 52)"

definition round64 :: "real \<Rightarrow> real" where
  "round64 x = (if x = 0 then 0 else real_of_int (rne (x / ulp x)) * ulp x)"

definition fl64 :: "real \<Rightarrow> float64" where
  "fl64 x = (let r = round64 x in if \<bar>r\<bar> < 2 ^ 1024 then Some r else None)"

text \<open>
  \<open>radius = 1 + ((level - min_level) / (max_level - min_level)) * 4\<close> on numpy
  float64 values, operation by operation. The two differences are finite or, on overflow,
  an infinity. A finite dividend over a zero divisor gives nan or an infinity, over an
  infinite divisor it gives zero; an infinite dividend gives an infinity or nan. A
  non-finite quotient stays non-finite through the product and the sum.
\<close>

definition radius_B :: "real \<Rightarrow> real \<Rightarrow> real \<Rightarrow> float64" where
  "radius_B min_level max_level level =
     (let q = (case (fl64 (level - min_level), fl64 (max_level - min_level)) of
                 (Some a, Some b) \<Rightarrow> if b = 0 then None else fl64 (a / b)
               | (Some a, None) \<Rightarrow> Some 0
               | (None, _) \<Rightarrow> None)
      in Option.bind q (\<lambda>q. Option.bind (fl64 (q * 4)) (\<lambda>m. fl64 (1 + m))))"

text \<open>\<open>ndarray.min()\<close> and \<open>ndarray.max()\<close>: ValueError on an empty array.\<close>

fun amin :: "real list \<Rightarrow> py_error + real" where
  "amin [] = Inl ValueError"
| "amin (x # xs) = Inr (fold min xs x)"

fun amax :: "real list \<Rightarrow> py_error + real" where
  "amax [] = Inl ValueError"
| "amax (x # xs) = Inr (fold max xs x)"

text \<open>
  The two scripts differ inside \<open>animate\<close> in the colour of a point and in whether the
  info text shows the radius. Policy A colours by decade, policy B by the fraction of the
  year range, a division whose divisor is zero when first and last year coincide.
\<close>

record policy =
  colour :: "int list \<Rightarrow> nat \<Rightarrow> float64"
  shows_radius :: bool

definition policy_A :: policy where
  "policy_A = \<lparr> colour = (\<lambda>years i. let decade = years ! i div 10 - 195
                                     in Some (real_of_int decade / 7)),
                shows_radius = False \<rparr>"

definition policy_B :: policy where
  "policy_B = \<lparr> colour = (\<lambda>years i. np_div (real_of_int (years ! i - years ! 0))
                                           (real_of_int (last years - years ! 0))),
                shows_radius = True \<rparr>"

text \<open>
  What \<open>create_animated_polar_chart\<close> has built when it reaches \<open>plt.show()\<close>: the
  closure variables of \<open>animate\<close> and the frame count given to \<open>FuncAnimation\<close>.
\<close>

record chart =
  years :: "int list"
  sea_levels :: "real list"
  angles :: "real list"
  radii :: "float64 list"
  ylim :: real
  total_frames :: nat
  variant :: policy

definition create_animated_polar_chart_A ::
  "py_error + dataframe \<Rightarrow> py_error + chart option" where
  "create_animated_polar_chart_A read_csv =
     (case snd (load_sea_level_data read_csv) of
        Inl e \<Rightarrow> Inl e
      | Inr None \<Rightarrow> Inr None
      | Inr (Some df) \<Rightarrow>
          if df = [] then Inl IndexError \<comment> \<open>\<open>years[-1]\<close> of an empty array\<close>
          else Inr (Some \<lparr>
            years = map fst df,
            sea_levels = map snd df,
            angles = map (\<lambda>(year, level). angle_of year) df,
            radii = map (\<lambda>(year, level). Some (radius_A year level)) df,
            ylim = real_of_int (fst (last df) div 10 - 195 + 3),
            total_frames = length df + 60,
            variant = policy_A \<rparr>))"

definition create_animated_polar_chart_B ::
  "py_error + dataframe \<Rightarrow> py_error + chart option" where
  "create_animated_polar_chart_B read_csv =
     (case snd (load_sea_level_data read_csv) of
        Inl e \<Rightarrow> Inl e
      | Inr None \<Rightarrow> Inr None
      | Inr (Some df) \<Rightarrow>
          (case (amin (map snd df), amax (map snd df)) of
             (Inr min_level, Inr max_level) \<Rightarrow>
               Inr (Some \<lparr>
                 years = map fst df,
                 sea_levels = map snd df,
                 angles = map (\<lambda>(year, level). angle_of year) df,
                 radii = map (\<lambda>(year, level). radius_B min_level max_level level) df,
                 ylim = 6,
                 total_frames = length df + 60,
                 variant = policy_B \<rparr>)
           | (Inl e, _) \<Rightarrow> Inl e
           | (_, Inl e) \<Rightarrow> Inl e))"

subsection \<open>animate\<close>

text \<open>
  The info text is kept as the values it is formatted from. The artists are the mutable
  objects \<open>animate\<close> updates: \<open>set_data\<close> stores a pair of coordinate lists,
  \<open>set_offsets\<close> a list of points, \<open>set_array\<close> the colour values, and
  \<open>year_texts\<close> holds position and year of each label.
\<close>

datatype info =
    No_info
  | Start_info int real int nat
  | Current_info int int int real "float64 option" nat nat real

record artists =
  line :: "real list \<times> float64 list"
  points_offsets :: "(real \<times> float64) list"
  points_array :: "float64 list"
  year_texts :: "(real \<times> float64 \<times> int) list"
  start_point :: "real list \<times> float64 list"
  current_point :: "real list \<times> float64 list"
  info_text :: info

definition initial_artists :: artists where
  "initial_artists = \<lparr> line = ([], []), points_offsets = [], points_array = [],
     year_texts = [], start_point = ([], []), current_point = ([], []),
     info_text = No_info \<rparr>"

text \<open>One round of the label loop: \<open>year_texts.append\<close> under the source's test.\<close>

definition add_label ::
  "chart \<Rightarrow> nat \<Rightarrow> nat \<Rightarrow> (real \<times> float64 \<times> int) list \<Rightarrow> (real \<times> float64 \<times> int) list" where
  "add_label ch current_idx i texts =
     (let label_angle = angles ch ! i;
          label_radius = map_option (\<lambda>r. r + 0.15) (radii ch ! i)
      in if i = 0 \<or> i = current_idx \<or> years ch ! i mod 5 = 0
         then texts @ [(label_angle, label_radius, years ch ! i)]
         else texts)"

text \<open>
  \<open>animate(frame)\<close>. On an empty dataset \<open>angles[0]\<close> (frame 0) or
  \<open>angles[current_idx]\<close> (later frames) raises IndexError. Otherwise
  \<open>current_idx = min(frame, len(years) - 1)\<close> is not negative, so the source's test
  \<open>current_idx >= 0\<close> holds and the scatter is always updated. At frame 0
  \<open>set_array\<close> is not called: the colour values keep what they were.
\<close>

definition animate :: "chart \<Rightarrow> nat \<Rightarrow> artists \<Rightarrow> py_error + artists" where
  "animate ch frame st =
     (let n = length (years ch) in
      if n = 0 then Inl IndexError
      else if frame = 0 then
        Inr (st \<lparr> start_point := ([angles ch ! 0], [radii ch ! 0]),
                 current_point := ([], []),
                 line := ([], []),
                 points_offsets := [],
                 year_texts := [],
                 info_text := Start_info (years ch ! 0) (sea_levels ch ! 0)
                                (years ch ! 0 div 10 * 10) n \<rparr>)
      else
        let current_idx = min frame (n - 1);
            line_angles = take (current_idx + 1) (angles ch);
            line_radii = take (current_idx + 1) (radii ch);
            colors = map (colour (variant ch) (years ch)) [0..<current_idx + 1];
            current_year = years ch ! current_idx;
            current_level = sea_levels ch ! current_idx;
            current_decade = current_year div 10 * 10;
            year_in_decade = current_year mod 10;
            progress = real (current_idx + 1) / real n * 100
        in Inr (st \<lparr> line := (line_angles, line_radii),
                    points_offsets := zip line_angles line_radii,
                    points_array := colors,
                    year_texts := fold (add_label ch current_idx) [0..<current_idx + 1] [],
                    current_point := ([angles ch ! current_idx], [radii ch ! current_idx]),
                    start_point := ([angles ch ! 0], [radii ch ! 0]),
                    info_text := Current_info current_year current_decade year_in_decade
                       current_level
                       (if shows_radius (variant ch) then Some (radii ch ! current_idx)
                        else None)
                       (current_idx + 1) n progress \<rparr>))"


text \<open>
  \<open>FuncAnimation(fig, animate, frames=total_frames)\<close> calls \<open>animate\<close> on
  0, 1, ..., total_frames - 1 in turn, on the same artists; \<open>play\<close> runs a list of
  frames and stops at the first exception.
\<close>

fun play :: "chart \<Rightarrow> nat list \<Rightarrow> artists \<Rightarrow> py_error + artists" where
  "play ch [] st = Inr st"
| "play ch (frame # frames) st =
     (case animate ch frame st of Inl e \<Rightarrow> Inl e | Inr st' \<Rightarrow> play ch frames st')"


text \<open>The chart of a script after the given frames, from the CSV read; \<open>Inr None\<close>
  when nothing is drawn.\<close>

definition show_frames ::
  "(py_error + chart option) \<Rightarrow> nat list \<Rightarrow> py_error + artists option" where
  "show_frames created frames =
     (case created of
        Inl e \<Rightarrow> Inl e
      | Inr None \<Rightarrow> Inr None
      | Inr (Some ch) \<Rightarrow>
          (case play ch frames initial_artists of Inl e \<Rightarrow> Inl e | Inr st \<Rightarrow> Inr (Some st)))"

section \<open>Crawler: crawl_hko_sea_level.py\<close>

text \<open>
  The decoded JSON payload, as Python values: \<open>JNull\<close> is None, a \<open>JObj\<close> is a dict
  (its keys distinct, in insertion order), a \<open>JArr\<close> a list.
\<close>

datatype json = JNull | JBool bool | JInt int | JFloat real | JStr string
  | JArr "json list" | JObj "(string \<times> json) list"

text \<open>
  Python's \<open>int(s)\<close> and \<open>float(s)\<close> on a string are not part of the repository:
  they are parameters, \<open>None\<close> where the builtin raises ValueError.
\<close>

record builtins =
  int_of_str :: "string \<Rightarrow> int option"
  float_of_str :: "string \<Rightarrow> real option"

definition bind_err :: "'e + 'a \<Rightarrow> ('a \<Rightarrow> 'e + 'b) \<Rightarrow> 'e + 'b" where
  "bind_err m f = (case m of Inl e \<Rightarrow> Inl e | Inr x \<Rightarrow> f x)"

text \<open>\<open>v[k]\<close> for an index \<open>k >= 0\<close>, \<open>v[key]\<close> for a string key, \<open>for x in v\<close>,
  and \<open>bool(v)\<close>.\<close>

fun getitem :: "json \<Rightarrow> nat \<Rightarrow> py_error + json" where
  "getitem (JArr xs) k = (if k < length xs then Inr (xs ! k) else Inl IndexError)"
| "getitem (JStr s) k = (if k < length s then Inr (JStr [s ! k]) else Inl IndexError)"
| "getitem (JObj kvs) k = Inl KeyError"
| "getitem _ k = Inl TypeError"

fun getkey :: "json \<Rightarrow> string \<Rightarrow> py_error + json" where
  "getkey (JObj kvs) key = (case map_of kvs key of None \<Rightarrow> Inl KeyError | Some v \<Rightarrow> Inr v)"
| "getkey _ key = Inl TypeError"

fun iterate :: "json \<Rightarrow> py_error + json list" where
  "iterate (JArr xs) = Inr xs"
| "iterate (JStr s) = Inr (map (\<lambda>c. JStr [c]) s)"
| "iterate (JObj kvs) = Inr (map (\<lambda>kv. JStr (fst kv)) kvs)"
| "iterate _ = Inl TypeError"

fun truthy :: "json \<Rightarrow> bool" where
  "truthy JNull = False"
| "truthy (JBool b) = b"
| "truthy (JInt i) = (i \<noteq> 0)"
| "truthy (JFloat r) = (r \<noteq> 0)"
| "truthy (JStr s) = (s \<noteq> [])"
| "truthy (JArr xs) = (xs \<noteq> [])"
| "truthy (JObj kvs) = (kvs \<noteq> [])"

fun py_int :: "builtins \<Rightarrow> json \<Rightarrow> py_error + int" where
  "py_int p (JStr s) = (case int_of_str p s of None \<Rightarrow> Inl ValueError | Some i \<Rightarrow> Inr i)"
| "py_int p (JInt i) = Inr i"
| "py_int p (JFloat r) = Inr (if 0 \<le> r then \<lfloor>r\<rfloor> else \<lceil>r\<rceil>)"
| "py_int p (JBool b) = Inr (if b then 1 else 0)"
| "py_int p _ = Inl TypeError"

fun py_float :: "builtins \<Rightarrow> json \<Rightarrow> py_error + real" where
  "py_float p (JStr s) = (case float_of_str p s of None \<Rightarrow> Inl ValueError | Some r \<Rightarrow> Inr r)"
| "py_float p (JInt i) = Inr (real_of_int i)"
| "py_float p (JFloat r) = Inr r"
| "py_float p (JBool b) = Inr (if b then 1 else 0)"
| "py_float p _ = Inl TypeError"

text \<open>\<open>x if x != '***' else None\<close>, then \<open>float(x) if x else None\<close>.\<close>

definition unsentinel :: "json \<Rightarrow> json" where
  "unsentinel x = (if x \<noteq> JStr ''***'' then x else JNull)"

definition to_level :: "builtins \<Rightarrow> json \<Rightarrow> py_error + real option" where
  "to_level p x = (if truthy x then bind_err (py_float p x) (\<lambda>r. Inr (Some r)) else Inr None)"

text \<open>
  The body of the loop over \<open>yearData\<close>: the six fields are read first, then the dict
  is built, \<open>int(year)\<close> before the five levels; the first exception ends it.
\<close>

definition parse_record :: "builtins \<Rightarrow> json \<Rightarrow> py_error + sea_level_record" where
  "parse_record p year_record =
     bind_err (getitem year_record 0) (\<lambda>year.
     bind_err (getitem year_record 1) (\<lambda>f1.
     bind_err (getitem year_record 2) (\<lambda>f2.
     bind_err (getitem year_record 3) (\<lambda>f3.
     bind_err (getitem year_record 4) (\<lambda>f4.
     bind_err (getitem year_record 5) (\<lambda>f5.
     let mean_sea_level = unsentinel f1;
         mean_higher_high_water = unsentinel f2;
         mean_lower_high_water = unsentinel f3;
         mean_higher_low_water = unsentinel f4;
         mean_lower_low_water = unsentinel f5
     in
     bind_err (py_int p year) (\<lambda>y.
     bind_err (to_level p mean_sea_level) (\<lambda>msl.
     bind_err (to_level p mean_higher_high_water) (\<lambda>mhhw.
     bind_err (to_level p mean_lower_high_water) (\<lambda>mlhw.
     bind_err (to_level p mean_higher_low_water) (\<lambda>mhlw.
     bind_err (to_level p mean_lower_low_water) (\<lambda>mllw.
     Inr \<lparr> Year = y, Mean_Sea_Level_m = msl, Mean_Higher_High_Water_m = mhhw,
           Mean_Lower_High_Water_m = mlhw, Mean_Higher_Low_Water_m = mhlw,
           Mean_Lower_Low_Water_m = mllw \<rparr>))))))))))))"

fun process_records :: "builtins \<Rightarrow> json list \<Rightarrow> py_error + dataframe" where
  "process_records p [] = Inr []"
| "process_records p (year_record # rest) =
     bind_err (parse_record p year_record) (\<lambda>r.
     bind_err (process_records p rest) (\<lambda>rs. Inr (r # rs)))"

text \<open>The search for the station: \<open>station.get('code') == 'QUB'\<close>, first match.\<close>

fun find_qub :: "json list \<Rightarrow> py_error + json option" where
  "find_qub [] = Inr None"
| "find_qub (JObj kvs # rest) =
     (if map_of kvs ''code'' = Some (JStr ''QUB'') then Inr (Some (JObj kvs))
      else find_qub rest)"
| "find_qub (_ # rest) = Inl AttributeError"

text \<open>
  \<open>df[['Year', 'Mean_Sea_Level_m']].copy().dropna()\<close>: \<open>Year\<close> is never missing, so a
  row is dropped exactly when its mean sea level is.
\<close>

definition simple_df :: "dataframe \<Rightarrow> (int \<times> real) list" where
  "simple_df df = dropna_msl df"

record crawl_output =
  full_csv :: dataframe
  simple_csv :: "(int \<times> real) list"
  total_records :: nat
  year_range :: "int \<times> int"

text \<open>
  The \<open>try\<close> block, from the decoded payload on. \<open>sort_values('Year')\<close> raises
  KeyError on a frame built from no records; it is modelled by a stable sort (pandas
  leaves the order of rows with equal years open). Writing the three files is taken to
  succeed.
\<close>

definition crawl_body :: "builtins \<Rightarrow> json \<Rightarrow> py_error + crawl_output option" where
  "crawl_body p data =
     bind_err (getkey data ''tide'') (\<lambda>tide.
     bind_err (getkey tide ''data'') (\<lambda>stations.
     bind_err (iterate stations) (\<lambda>station_list.
     bind_err (find_qub station_list) (\<lambda>found.
     case found of
       None \<Rightarrow> Inr None
     | Some qub_data \<Rightarrow>
         bind_err (getkey qub_data ''yearData'') (\<lambda>year_data.
         bind_err (iterate year_data) (\<lambda>year_records.
         bind_err (process_records p year_records) (\<lambda>processed_data.
         if processed_data = [] then Inl KeyError
         else let df = sort_key Year processed_data;
                  simple = simple_df df
              in Inr (Some \<lparr> full_csv = df, simple_csv = simple,
                               total_records = length df,
                               year_range = (Year (hd df), Year (last df)) \<rparr>))))))))"

text \<open>
  \<open>crawl_hko_sea_level_data\<close>: the argument is the outcome of the request and of
  \<open>response.json()\<close>. Every exception is caught and turned into None.
\<close>

definition crawl_hko_sea_level_data ::
  "builtins \<Rightarrow> py_error + json \<Rightarrow> crawl_output option" where
  "crawl_hko_sea_level_data p response =
     (case response of
        Inl e \<Rightarrow> None
      | Inr data \<Rightarrow> (case crawl_body p data of Inl e \<Rightarrow> None | Inr out \<Rightarrow> out))"

section \<open>Analyzer: seaLevelAnalysis.py\<close>

text \<open>
  \<open>np.polyfit(x, y, 1)\<close> is numpy's: it returns the coefficients, slope first, of the
  line that minimises the squared error, here in closed form. \<open>None\<close> stands for the
  cases this form does not cover: a singular system (numpy then warns and returns a
  minimum-norm solution) and inputs of different lengths (numpy raises).
\<close>

definition polyfit1 :: "real list \<Rightarrow> real list \<Rightarrow> (real \<times> real) option" where
  "polyfit1 xs ys =
     (let n = real (length xs);
          sx = sum_list xs;
          sy = sum_list ys;
          sxx = sum_list (map (\<lambda>x. x * x) xs);
          sxy = sum_list (map (\<lambda>(x, y). x * y) (zip xs ys));
          den = n * sxx - sx * sx
      in if length xs \<noteq> length ys \<or> den = 0 then None
         else Some ((n * sxy - sx * sy) / den, (sy * sxx - sx * sxy) / den))"

text \<open>
  \<open>z = np.polyfit(years, sea_level, 1)\<close> on the whole table (no row is dropped
  first); a missing level makes the fit non-finite, \<open>None\<close> here.
\<close>

definition long_term_trend :: "dataframe \<Rightarrow> (real \<times> real) option" where
  "long_term_trend df =
     (if list_all (\<lambda>r. Mean_Sea_Level_m r \<noteq> None) df
      then polyfit1 (map (\<lambda>r. real_of_int (Year r)) df) (List.map_filter Mean_Sea_Level_m df)
      else None)"

text \<open>
  \<open>df['Decade'] = (df['Year'] // 10) * 10\<close> and
  \<open>df.groupby('Decade')['Mean_Sea_Level_m'].agg(['mean', 'std', 'count'])\<close>: one row
  for each decade that occurs, in ascending order; the three aggregates skip missing
  values, \<open>std\<close> is the sample standard deviation (divisor n - 1), and mean and std are
  nan (\<open>None\<close>) when there are too few values.
\<close>

definition decade_of :: "int \<Rightarrow> int" where
  "decade_of year = (year div 10) * 10"

record decade_stat =
  Decade :: int
  mean :: float64
  std :: float64
  count :: nat

definition series_mean :: "real list \<Rightarrow> float64" where
  "series_mean xs = (if xs = [] then None else Some (sum_list xs / real (length xs)))"

definition series_std :: "real list \<Rightarrow> float64" where
  "series_std xs =
     (if length xs < 2 then None
      else let m = sum_list xs / real (length xs)
           in Some (sqrt (sum_list (map (\<lambda>x. (x - m) ^ 2) xs) / real (length xs - 1))))"

definition group_values :: "dataframe \<Rightarrow> int \<Rightarrow> real list" where
  "group_values df d =
     List.map_filter Mean_Sea_Level_m (filter (\<lambda>r. decade_of (Year r) = d) df)"

definition groupby_decade :: "dataframe \<Rightarrow> decade_stat list" where
  "groupby_decade df =
     map (\<lambda>d. \<lparr> Decade = d, mean = series_mean (group_values df d),
                 std = series_std (group_values df d),
                 count = length (group_values df d) \<rparr>)
         (sort (remdups (map (\<lambda>r. decade_of (Year r)) df)))"

text \<open>
  The decadal filter of \<open>create_comprehensive_analysis\<close>, lines 110 to 112:
  the value of \<open>decade_stats\<close> after
  \<open>decade_stats = decade_stats[decade_stats['count'] >= 5]\<close>. The function as a
  whole, with the exceptions that keep it from returning its figure, is
  \<open>create_comprehensive_analysis\<close> below.
\<close>

definition chart_decades :: "dataframe \<Rightarrow> decade_stat list" where
  "chart_decades df = filter (\<lambda>s. 5 \<le> count s) (groupby_decade df)"

text \<open>\<open>generate_summary_report\<close>: the loop over \<open>decade_stats.iterrows()\<close> writes a
  line for a decade \<open>if stats['count'] >= 5\<close>.\<close>

fun report_decades_loop :: "decade_stat list \<Rightarrow> decade_stat list \<Rightarrow> decade_stat list" where
  "report_decades_loop [] written = written"
| "report_decades_loop (stats # rest) written =
     report_decades_loop rest (if 5 \<le> count stats then written @ [stats] else written)"

definition report_decades :: "dataframe \<Rightarrow> decade_stat list" where
  "report_decades df = report_decades_loop (groupby_decade df) []"

text \<open>
  The calls of \<open>np.polyfit\<close> inside the two functions: what numpy does on a series
  with missing values, or on too few points, depends on the library and its LAPACK, so the
  call is a parameter; it raises (\<open>Inl\<close>) or returns slope and intercept.
\<close>

record numpy_lib =
  np_polyfit :: "real list \<Rightarrow> float64 list \<Rightarrow> py_error + float64 \<times> float64"

text \<open>\<open>series.iloc[0]\<close>: IndexError on an empty selection.\<close>

fun iloc0 :: "'a list \<Rightarrow> py_error + 'a" where
  "iloc0 [] = Inl IndexError"
| "iloc0 (x # xs) = Inr x"

definition tidal_range :: "sea_level_record \<Rightarrow> float64" where
  "tidal_range r =
     (case (Mean_Higher_High_Water_m r, Mean_Lower_Low_Water_m r) of
        (Some h, Some l) \<Rightarrow> Some (h - l)
      | _ \<Rightarrow> None)"

record figure =
  trend :: "float64 \<times> float64"
  recent_trend :: "(float64 \<times> float64) option"
  range_trend :: "(float64 \<times> float64) option"
  decade_bars :: "decade_stat list"
  level_2020 :: float64
  level_2024 :: float64

text \<open>
  \<open>create_comprehensive_analysis(df)\<close>, in the order of the source: the trend fit
  (line 41), the fit of the rows from 1995 on when there are any (line 61), the fit of the
  tidal range of the rows with both extremes when there are any (line 95), the decadal
  bars (lines 110 to 115), and the statistics text, which looks up the year of the largest
  level (\<open>idxmax\<close>, an exception when no level is present) and the levels of the years
  2020 and 2024 with \<open>.iloc[0]\<close> (lines 143 to 145). The figure is returned only when
  none of these raises.
\<close>

definition create_comprehensive_analysis :: "numpy_lib \<Rightarrow> dataframe \<Rightarrow> py_error + figure" where
  "create_comprehensive_analysis np df =
     bind_err (np_polyfit np (map (\<lambda>r. real_of_int (Year r)) df) (map Mean_Sea_Level_m df))
       (\<lambda>z.
     let recent_df = filter (\<lambda>r. 1995 \<le> Year r) df in
     bind_err (if recent_df \<noteq> []
               then bind_err (np_polyfit np (map (\<lambda>r. real_of_int (Year r)) recent_df)
                                (map Mean_Sea_Level_m recent_df)) (\<lambda>zr. Inr (Some zr))
               else Inr None) (\<lambda>z_recent.
     let complete_data = filter (\<lambda>r. Mean_Higher_High_Water_m r \<noteq> None
                                     \<and> Mean_Lower_Low_Water_m r \<noteq> None) df in
     bind_err (if complete_data \<noteq> []
               then bind_err (np_polyfit np (map (\<lambda>r. real_of_int (Year r)) complete_data)
                                (map tidal_range complete_data)) (\<lambda>zr. Inr (Some zr))
               else Inr None) (\<lambda>z_range.
     let decade_stats = chart_decades df in
     if list_all (\<lambda>r. Mean_Sea_Level_m r = None) df then Inl ValueError
     else
     bind_err (iloc0 (map Mean_Sea_Level_m (filter (\<lambda>r. Year r = 2020) df))) (\<lambda>l2020.
     bind_err (iloc0 (map Mean_Sea_Level_m (filter (\<lambda>r. Year r = 2024) df))) (\<lambda>l2024.
     Inr \<lparr> trend = z, recent_trend = z_recent, range_trend = z_range,
           decade_bars = decade_stats, level_2020 = l2020, level_2024 = l2024 \<rparr>)))))"

record summary_report =
  report_trend :: "float64 \<times> float64"
  decade_lines :: "decade_stat list"

text \<open>
  \<open>generate_summary_report(df)\<close>: the basic statistics (with \<open>idxmax\<close>, line 298),
  the trend fit (line 304) and the decadal lines (lines 325 to 333); writing the file is
  taken to succeed.
\<close>

definition generate_summary_report ::
  "numpy_lib \<Rightarrow> dataframe \<Rightarrow> py_error + summary_report" where
  "generate_summary_report np df =
     (if list_all (\<lambda>r. Mean_Sea_Level_m r = None) df then Inl ValueError
      else bind_err (np_polyfit np (map (\<lambda>r. real_of_int (Year r)) df)
                       (map Mean_Sea_Level_m df)) (\<lambda>z.
           Inr \<lparr> report_trend = z, decade_lines = report_decades df \<rparr>))"

section \<open>Sample data\<close>

definition row :: "int \<Rightarrow> real option \<Rightarrow> sea_level_record" where
  "row y l = \<lparr> Year = y, Mean_Sea_Level_m = l, Mean_Higher_High_Water_m = None,
               Mean_Lower_High_Water_m = None, Mean_Higher_Low_Water_m = None,
               Mean_Lower_Low_Water_m = None \<rparr>"

definition sample_table :: dataframe where
  "sample_table = [row 1954 (Some 1.30), row 1955 (Some 1.35), row 1956 None,
                   row 1957 (Some 1.40)]"

definition dyadic_table :: dataframe where
  "dyadic_table = [row 2000 (Some 1.25), row 2001 (Some 1.5), row 2002 (Some 1.75)]"

definition rounding_table :: dataframe where
  "rounding_table = [row 2000 (Some 0), row 2001 (Some (1 / 2 ^ 60)),
                     row 2002 (Some (1 - 1 / 2 ^ 53)), row 2003 (Some 1)]"

definition overflow_table :: dataframe where
  "overflow_table = [row 2000 (Some (- (2 ^ 1023))), row 2001 (Some (2 ^ 1023))]"

definition flat_table :: dataframe where
  "flat_table = [row 2000 (Some 1.35), row 2001 (Some 1.35)]"

definition sample_builtins :: builtins where
  "sample_builtins = \<lparr>
     int_of_str = (\<lambda>s. if s = ''2023'' then Some 2023
                       else if s = ''2024'' then Some 2024 else None),
     float_of_str = (\<lambda>s. if s = ''1.410'' then Some 1.41
                         else if s = ''1.750'' then Some 1.75
                         else if s = ''0.650'' then Some 0.65 else None) \<rparr>"

definition sample_payload :: json where
  "sample_payload =
     JObj [(''tide'', JObj [(''data'', JArr [
       JObj [(''code'', JStr ''TBT''), (''yearData'', JArr [])],
       JObj [(''code'', JStr ''QUB''), (''yearData'', JArr [
         JArr [JStr ''2024'', JStr ''1.410'', JStr ''1.750'', JStr ''***'', JStr ''***'',
               JStr ''0.650''],
         JArr [JStr ''2023'', JStr ''***'', JStr ''1.750'', JStr ''***'', JStr ''***'',
               JStr ''0.650'']])]])])]"

definition sample_output :: crawl_output where
  "sample_output = \<lparr> full_csv =
         [\<lparr> Year = 2023, Mean_Sea_Level_m = None, Mean_Higher_High_Water_m = Some 1.75,
            Mean_Lower_High_Water_m = None, Mean_Higher_Low_Water_m = None,
            Mean_Lower_Low_Water_m = Some 0.65 \<rparr>,
          \<lparr> Year = 2024, Mean_Sea_Level_m = Some 1.41, Mean_Higher_High_Water_m = Some 1.75,
            Mean_Lower_High_Water_m = None, Mean_Higher_Low_Water_m = None,
            Mean_Lower_Low_Water_m = Some 0.65 \<rparr>],
        simple_csv = [(2024, 1.41)], total_records = 2, year_range = (2023, 2024) \<rparr>"

text \<open>A numpy whose fit is the closed form, nan on a series with a missing value.\<close>

definition sample_numpy :: numpy_lib where
  "sample_numpy = \<lparr> np_polyfit = (\<lambda>xs ys.
     if list_all (\<lambda>y. y \<noteq> None) ys
     then (case polyfit1 xs (List.map_filter id ys) of
             Some (a, b) \<Rightarrow> Inr (Some a, Some b)
           | None \<Rightarrow> Inr (None, None))
     else Inr (None, None)) \<rparr>"

definition fifties_table :: dataframe where
  "fifties_table = [row 1954 (Some 1.30), row 1955 (Some 1.31), row 1956 (Some 1.32),
                    row 1957 (Some 1.33), row 1958 (Some 1.34), row 1959 (Some 1.35)]"

definition analysis_table :: dataframe where
  "analysis_table = [row 2020 (Some 1.30), row 2021 (Some 1.32), row 2022 (Some 1.35),
                     row 2023 (Some 1.33), row 2024 (Some 1.38)]"

section \<open>Properties of the coordinate mapping\<close>

lemma dropna_msl_set:
  "set (dropna_msl df) = {(Year r, l) | r l. r \<in> set df \<and> Mean_Sea_Level_m r = Some l}"
  by (force simp: dropna_msl_def List.map_filter_def)

lemma dropna_msl_sample:
  "dropna_msl sample_table = [(1954, 1.30), (1955, 1.35), (1957, 1.40)]"
  by (simp add: dropna_msl_def sample_table_def row_def)

lemma amin_Min: "xs \<noteq> [] \<Longrightarrow> amin xs = Inr (Min (set xs))"
proof (cases xs)
  case (Cons a list)
  then show ?thesis using Min.set_eq_fold [of a list] by simp
qed simp

lemma amax_Max: "xs \<noteq> [] \<Longrightarrow> amax xs = Inr (Max (set xs))"
proof (cases xs)
  case (Cons a list)
  then show ?thesis using Max.set_eq_fold [of a list] by simp
qed simp

lemma create_A_Some:
  assumes "create_animated_polar_chart_A (Inr table) = Inr (Some ch)"
  shows "dropna_msl table \<noteq> []"
    and "years ch = map fst (dropna_msl table)"
    and "sea_levels ch = map snd (dropna_msl table)"
    and "angles ch = map (\<lambda>(year, level). angle_of year) (dropna_msl table)"
    and "radii ch = map (\<lambda>(year, level). Some (radius_A year level)) (dropna_msl table)"
    and "total_frames ch = length (dropna_msl table) + 60"
    and "variant ch = policy_A"
  using assms
  by (auto simp: create_animated_polar_chart_A_def load_sea_level_data_def split: if_splits)

lemma create_A_nonempty:
  assumes "dropna_msl table \<noteq> []"
  shows "\<exists>ch. create_animated_polar_chart_A (Inr table) = Inr (Some ch)"
  using assms by (simp add: create_animated_polar_chart_A_def load_sea_level_data_def)

lemma create_B_nonempty:
  assumes "dropna_msl table \<noteq> []"
  shows "\<exists>ch. create_animated_polar_chart_B (Inr table) = Inr (Some ch)"
  using assms
  by (simp add: create_animated_polar_chart_B_def load_sea_level_data_def amin_Min amax_Max)

lemma create_B_Some:
  assumes "create_animated_polar_chart_B (Inr table) = Inr (Some ch)"
  shows "dropna_msl table \<noteq> []"
    and "years ch = map fst (dropna_msl table)"
    and "sea_levels ch = map snd (dropna_msl table)"
    and "angles ch = map (\<lambda>(year, level). angle_of year) (dropna_msl table)"
    and "radii ch = map (\<lambda>(year, level). radius_B (Min (snd ` set (dropna_msl table)))
                      (Max (snd ` set (dropna_msl table))) level) (dropna_msl table)"
    and "total_frames ch = length (dropna_msl table) + 60"
    and "variant ch = policy_B"
proof -
  show ne: "dropna_msl table \<noteq> []"
    using assms
    by (auto simp: create_animated_polar_chart_B_def load_sea_level_data_def)
  then have m: "amin (map snd (dropna_msl table)) = Inr (Min (snd ` set (dropna_msl table)))"
    "amax (map snd (dropna_msl table)) = Inr (Max (snd ` set (dropna_msl table)))"
    by (simp_all add: amin_Min amax_Max)
  show "years ch = map fst (dropna_msl table)"
    "sea_levels ch = map snd (dropna_msl table)"
    "angles ch = map (\<lambda>(year, level). angle_of year) (dropna_msl table)"
    "radii ch = map (\<lambda>(year, level). radius_B (Min (snd ` set (dropna_msl table)))
                      (Max (snd ` set (dropna_msl table))) level) (dropna_msl table)"
    "total_frames ch = length (dropna_msl table) + 60"
    "variant ch = policy_B"
    using assms m
    by (auto simp: create_animated_polar_chart_B_def load_sea_level_data_def)
qed

text \<open>
  C1. Policy A (animated_sea_level.py): every row of the CSV with a non-missing mean sea
  level is a loaded row, and for the i-th loaded row, with year y and level L, the
  animator's angle is 2 pi (y mod 10) / 10 and its radius is
  (floor (y / 10) - 195) + 1 + 5 (L - 1.35).
\<close>

theorem policy_A_angle_radius:
  assumes "create_animated_polar_chart_A (Inr table) = Inr (Some ch)"
    and "i < length (dropna_msl table)"
    and "dropna_msl table ! i = (y, L)"
  shows "(\<forall>r l. r \<in> set table \<and> Mean_Sea_Level_m r = Some l
            \<longrightarrow> (Year r, l) \<in> set (dropna_msl table))
       \<and> length (angles ch) = length (dropna_msl table)
       \<and> length (radii ch) = length (dropna_msl table)
       \<and> angles ch ! i = 2 * pi * real_of_int (y mod 10) / 10
       \<and> radii ch ! i
           = Some ((real_of_int \<lfloor>real_of_int y / 10\<rfloor> - 195) + 1 + 5 * (L - 1.35))"
proof -
  have fl: "\<lfloor>real_of_int y / 10\<rfloor> = y div 10"
    by (simp add: floor_divide_of_int_eq [of y 10, simplified])
  show ?thesis
    using create_A_Some [OF assms(1)] assms(2,3)
    by (auto simp: dropna_msl_set angle_of_def radius_A_def fl Let_def)
qed

theorem policy_A_angle_radius_witness:
  "\<exists>ch. create_animated_polar_chart_A (Inr sample_table) = Inr (Some ch)
      \<and> dropna_msl sample_table ! 2 = (1957, 1.40)
      \<and> angles ch ! 2 = 2 * pi * 7 / 10
      \<and> radii ch ! 2 = Some ((195 - 195) + 1 + 5 * (1.40 - 1.35))"
proof -
  note d = dropna_msl_sample
  obtain ch where h: "create_animated_polar_chart_A (Inr sample_table) = Inr (Some ch)"
    by (simp add: create_animated_polar_chart_A_def load_sea_level_data_def d)
  have i: "2 < length (dropna_msl sample_table)"
    and e: "dropna_msl sample_table ! 2 = (1957, 1.40)"
    by (simp_all add: d)
  from policy_A_angle_radius [OF h i e] show ?thesis using h e by simp
qed

subsection \<open>Rounding to float64\<close>

lemma rne_bounds: "\<lfloor>t\<rfloor> \<le> rne t" "rne t \<le> \<lfloor>t\<rfloor> + 1"
  by (simp_all add: rne_def Let_def)

lemma rne_of_int: "rne (real_of_int n) = n"
  by (simp add: rne_def)

lemma rne_mono: "s \<le> t \<Longrightarrow> rne s \<le> rne t"
proof (cases "\<lfloor>s\<rfloor> = \<lfloor>t\<rfloor>")
  case True
  assume "s \<le> t"
  then show ?thesis using True by (auto simp: rne_def Let_def)
next
  case False
  assume "s \<le> t"
  then have "\<lfloor>s\<rfloor> < \<lfloor>t\<rfloor>" using False floor_mono [of s t] by linarith
  then show ?thesis using rne_bounds(2) [of s] rne_bounds(1) [of t] by linarith
qed

lemma rne_le_int: "t \<le> real_of_int n \<Longrightarrow> rne t \<le> n"
  using rne_mono [of t "real_of_int n"] by (simp add: rne_of_int)

lemma rne_ge_int: "real_of_int n \<le> t \<Longrightarrow> n \<le> rne t"
  using rne_mono [of "real_of_int n" t] by (simp add: rne_of_int)

lemma binade_ge: "- 1022 \<le> binade x"
  by (simp add: binade_def)

lemma binade_upper: "0 < x \<Longrightarrow> x < 2 powr (real_of_int (binade x) + 1)"
proof -
  assume x: "0 < x"
  have "log 2 x < real_of_int \<lfloor>log 2 x\<rfloor> + 1" by linarith
  also have "\<dots> \<le> real_of_int (binade x) + 1" using x by (simp add: binade_def)
  finally have "log 2 x < real_of_int (binade x) + 1" .
  then have "2 powr log 2 x < 2 powr (real_of_int (binade x) + 1)" by simp
  then show ?thesis using x by simp
qed

lemma binade_lower: "0 < x \<Longrightarrow> - 1022 < binade x \<Longrightarrow> 2 powr real_of_int (binade x) \<le> x"
proof -
  assume x: "0 < x" and b: "- 1022 < binade x"
  then have "binade x = \<lfloor>log 2 x\<rfloor>" by (simp add: binade_def max_def split: if_splits)
  then have "real_of_int (binade x) \<le> log 2 x" by simp
  then have "2 powr real_of_int (binade x) \<le> 2 powr log 2 x" by simp
  then show ?thesis using x by simp
qed

lemma binade_mono: "0 < x \<Longrightarrow> x \<le> y \<Longrightarrow> binade x \<le> binade y"
proof -
  assume x: "0 < x" and xy: "x \<le> y"
  then have "log 2 x \<le> log 2 y" by simp
  then have "\<lfloor>log 2 x\<rfloor> \<le> \<lfloor>log 2 y\<rfloor>" by (rule floor_mono)
  then show ?thesis using x xy by (simp add: binade_def)
qed

lemma binade_eqI:
  assumes "2 powr real_of_int e \<le> \<bar>x\<bar>" and "\<bar>x\<bar> < 2 powr (real_of_int e + 1)"
    and "- 1022 \<le> e"
  shows "binade x = e"
proof -
  have p: "0 < \<bar>x\<bar>" using assms(1) powr_gt_zero [of 2 "real_of_int e"] by linarith
  have "\<lfloor>log 2 \<bar>x\<bar>\<rfloor> = e"
    using floor_log_eq_powr_iff [OF p, of 2 e] assms(1,2) by (simp add: add.commute)
  then show ?thesis using assms(3) by (simp add: binade_def)
qed

lemma ulp_pos: "0 < ulp x"
  by (simp add: ulp_def)

lemma round64_pos_eq: "0 < x \<Longrightarrow> round64 x = real_of_int (rne (x / ulp x)) * ulp x"
  by (simp add: round64_def)

lemma round64_nonneg: "0 \<le> x \<Longrightarrow> 0 \<le> round64 x"
proof (cases "x = 0")
  case False
  assume "0 \<le> x"
  then have "real_of_int 0 \<le> x / ulp x" using ulp_pos [of x] by simp
  then have "0 \<le> rne (x / ulp x)" by (rule rne_ge_int)
  then show ?thesis using False ulp_pos [of x] by (simp add: round64_def)
qed (simp add: round64_def)

lemma round64_le_top:
  assumes "0 < x"
  shows "round64 x \<le> 2 powr (real_of_int (binade x) + 1)"
proof -
  have u: "2 powr (real_of_int (binade x) + 1) = real_of_int (2 ^ 53) * ulp x"
    using powr_add [of 2 53 "real_of_int (binade x) - 52"] by (simp add: ulp_def add.commute)
  have "x / ulp x \<le> real_of_int (2 ^ 53)"
    using binade_upper [OF assms] ulp_pos [of x] unfolding u
    by (simp add: field_simps)
  then have "rne (x / ulp x) \<le> 2 ^ 53" by (rule rne_le_int)
  then have "real_of_int (rne (x / ulp x)) * ulp x \<le> real_of_int (2 ^ 53) * ulp x"
    using ulp_pos [of x] by (simp add: mult_right_mono)
  then show ?thesis using assms u by (simp add: round64_def)
qed

lemma round64_ge_bot:
  assumes "0 < x" and "- 1022 < binade x"
  shows "2 powr real_of_int (binade x) \<le> round64 x"
proof -
  have u: "2 powr real_of_int (binade x) = real_of_int (2 ^ 52) * ulp x"
    using powr_add [of 2 52 "real_of_int (binade x) - 52"] by (simp add: ulp_def)
  have "real_of_int (2 ^ 52) \<le> x / ulp x"
    using binade_lower [OF assms] ulp_pos [of x] unfolding u
    by (simp add: field_simps)
  then have "2 ^ 52 \<le> rne (x / ulp x)" by (rule rne_ge_int)
  then have "real_of_int (2 ^ 52) * ulp x \<le> real_of_int (rne (x / ulp x)) * ulp x"
    using ulp_pos [of x] by (simp add: mult_right_mono)
  then show ?thesis using assms u by (simp add: round64_def)
qed

lemma round64_mono:
  assumes "0 \<le> x" and "x \<le> y"
  shows "round64 x \<le> round64 y"
proof (cases "x = 0")
  case True
  then show ?thesis using assms round64_nonneg [of y] by (simp add: round64_def)
next
  case False
  then have x: "0 < x" and y: "0 < y" using assms by simp_all
  show ?thesis
  proof (cases "binade x = binade y")
    case True
    then have u: "ulp x = ulp y" by (simp add: ulp_def)
    have "x / ulp y \<le> y / ulp y" using assms(2) ulp_pos [of y] by (simp add: divide_right_mono)
    then have "rne (x / ulp y) \<le> rne (y / ulp y)" by (rule rne_mono)
    then show ?thesis using x y u ulp_pos [of y] by (simp add: round64_def mult_right_mono)
  next
    case False
    then have lt: "binade x < binade y" using binade_mono [OF x assms(2)] by simp
    then have b: "- 1022 < binade y" using binade_ge [of x] by linarith
    have "round64 x \<le> 2 powr (real_of_int (binade x) + 1)" by (rule round64_le_top [OF x])
    also have "\<dots> \<le> 2 powr real_of_int (binade y)" using lt by simp
    also have "\<dots> \<le> round64 y" by (rule round64_ge_bot [OF y b])
    finally show ?thesis .
  qed
qed

lemma round64_grid:
  assumes "x / ulp x = real_of_int n"
  shows "round64 x = x"
proof (cases "x = 0")
  case False
  have "real_of_int (rne (x / ulp x)) * ulp x = (x / ulp x) * ulp x"
    unfolding assms by (simp add: rne_of_int)
  then show ?thesis using False ulp_pos [of x] by (simp add: round64_def)
qed (simp add: round64_def)


lemma round64_eqI:
  assumes "2 powr real_of_int e \<le> \<bar>x\<bar>" and "\<bar>x\<bar> < 2 powr (real_of_int e + 1)"
    and "- 1022 \<le> e" and "rne (x / 2 powr (real_of_int e - 52)) = n"
  shows "round64 x = real_of_int n * 2 powr (real_of_int e - 52)"
proof -
  have b: "binade x = e" by (rule binade_eqI [OF assms(1-3)])
  have "x \<noteq> 0" using assms(1) powr_gt_zero [of 2 "real_of_int e"] by auto
  then show ?thesis using assms(4) by (simp add: round64_def ulp_def b)
qed

lemma round64_1: "round64 1 = 1"
  using round64_eqI [of 0 1 "2 ^ 52"] by (simp add: rne_def powr_minus_divide)

lemma round64_4: "round64 4 = 4"
  using round64_eqI [of 2 4 "2 ^ 52"] by (simp add: rne_def powr_minus_divide)

lemma round64_5: "round64 5 = 5"
  using round64_eqI [of 2 5 "5 * 2 ^ 50"] by (simp add: rne_def powr_minus_divide)

lemma round64_0: "round64 0 = 0"
  by (simp add: round64_def)

lemmas round64_simps = round64_0 round64_1 round64_4 round64_5

lemma round64_unit: "0 \<le> t \<Longrightarrow> t \<le> 1 \<Longrightarrow> 0 \<le> round64 t \<and> round64 t \<le> 1"
  using round64_mono [of t 1] round64_nonneg [of t] by (simp add: round64_simps)

lemma fl64_small: "\<bar>round64 x\<bar> \<le> 5 \<Longrightarrow> fl64 x = Some (round64 x)"
proof -
  assume "\<bar>round64 x\<bar> \<le> 5"
  moreover have "(5::real) < 2 ^ 1024" by simp
  ultimately have "\<bar>round64 x\<bar> < 2 ^ 1024" by linarith
  then show ?thesis by (simp add: fl64_def)
qed

lemma fl64_Some: "fl64 x = Some y \<Longrightarrow> y = round64 x \<and> \<bar>round64 x\<bar> < 2 ^ 1024"
  by (auto simp: fl64_def Let_def split: if_splits)

lemma ulp_multiple: "\<exists>k::int. ulp x = real_of_int k * 2 powr (- 1074)"
proof -
  have n: "0 \<le> binade x + 1022" using binade_ge [of x] by simp
  have "ulp x = 2 powr (real_of_int (binade x + 1022)) * 2 powr (- 1074)"
    using powr_add [of 2 "real_of_int (binade x + 1022)" "- 1074"] by (simp add: ulp_def)
  also have "2 powr (real_of_int (binade x + 1022)) = 2 ^ nat (binade x + 1022)"
    using n powr_realpow [of 2 "nat (binade x + 1022)"] by simp
  finally have "ulp x = real_of_int (2 ^ nat (binade x + 1022)) * 2 powr (- 1074)" by simp
  then show ?thesis by blast
qed

lemma round64_multiple: "\<exists>k::int. round64 x = real_of_int k * 2 powr (- 1074)"
proof (cases "x = 0")
  case True
  then have "round64 x = real_of_int 0 * 2 powr (- 1074)" by (simp add: round64_simps)
  then show ?thesis by blast
next
  case False
  obtain k :: int where k: "ulp x = real_of_int k * 2 powr (- 1074)"
    using ulp_multiple by blast
  have "round64 x = real_of_int (rne (x / ulp x) * k) * 2 powr (- 1074)"
    using False k by (simp add: round64_def)
  then show ?thesis by blast
qed

lemma round64_least: "round64 (2 powr (- 1074)) = 2 powr (- 1074)"
proof -
  have b: "binade (2 powr (- 1074)) = - 1022" by (simp add: binade_def)
  have "2 powr (- 1074) / ulp (2 powr (- 1074)) = real_of_int 1"
    by (simp add: ulp_def b)
  then show ?thesis by (rule round64_grid)
qed

lemma round64_diff_pos:
  assumes "round64 a = a" and "round64 b = b" and "a < b"
  shows "0 < round64 (b - a)"
proof -
  obtain ka :: int where ka: "a = real_of_int ka * 2 powr (- 1074)"
    using round64_multiple [of a] assms(1) by auto
  obtain kb :: int where kb: "b = real_of_int kb * 2 powr (- 1074)"
    using round64_multiple [of b] assms(2) by auto
  have q: "0 < (2::real) powr (- 1074)" by simp
  have "real_of_int ka < real_of_int kb"
    using assms(3) q unfolding ka kb by (simp only: mult_less_cancel_right_pos)
  then have "1 \<le> kb - ka" by simp
  then have "1 \<le> real_of_int (kb - ka)" by linarith
  then have "1 * 2 powr (- 1074) \<le> real_of_int (kb - ka) * 2 powr (- 1074)"
    using q by (intro mult_right_mono) simp_all
  then have "2 powr (- 1074) \<le> real_of_int (kb - ka) * 2 powr (- 1074)" by simp
  also have "\<dots> = b - a" unfolding ka kb by (simp add: algebra_simps)
  finally have "2 powr (- 1074) \<le> b - a" .
  then have "round64 (2 powr (- 1074)) \<le> round64 (b - a)"
    using q by (intro round64_mono) simp_all
  then have "2 powr (- 1074) \<le> round64 (b - a)" by (simp add: round64_least)
  with q show ?thesis by linarith
qed


lemma radius_B_ok:
  assumes lo: "fl64 lo = Some lo" and hi: "fl64 hi = Some hi" and lt: "lo < hi"
    and l1: "lo \<le> L" and l2: "L \<le> hi" and fin: "fl64 (hi - lo) \<noteq> None"
  shows "\<exists>a b q m r. fl64 (L - lo) = Some a \<and> fl64 (hi - lo) = Some b \<and> b \<noteq> 0
           \<and> fl64 (a / b) = Some q \<and> fl64 (q * 4) = Some m \<and> fl64 (1 + m) = Some r
           \<and> radius_B lo hi L = Some r \<and> 1 \<le> r \<and> r \<le> 5
           \<and> (L = lo \<longrightarrow> r = 1) \<and> (L = hi \<longrightarrow> r = 5)"
proof -
  define b where "b = round64 (hi - lo)"
  define a where "a = round64 (L - lo)"
  define q where "q = round64 (a / b)"
  define m where "m = round64 (q * 4)"
  define r where "r = round64 (1 + m)"
  have rlo: "round64 lo = lo" and rhi: "round64 hi = hi"
    using fl64_Some [OF lo] fl64_Some [OF hi] by simp_all
  have bpos: "0 < b" unfolding b_def by (rule round64_diff_pos [OF rlo rhi lt])
  have bfin: "\<bar>b\<bar> < 2 ^ 1024" and fb: "fl64 (hi - lo) = Some b"
    using fin by (auto simp: fl64_def Let_def b_def split: if_splits)
  have a0: "0 \<le> a" unfolding a_def using l1 by (intro round64_nonneg) simp
  have ab: "a \<le> b" unfolding a_def b_def using l1 l2 by (intro round64_mono) simp_all
  have fa: "fl64 (L - lo) = Some a"
    using a0 ab bfin by (simp add: fl64_def Let_def a_def [symmetric])
  have t: "0 \<le> a / b" "a / b \<le> 1" using a0 ab bpos by simp_all
  have q01: "0 \<le> q" "q \<le> 1" unfolding q_def using round64_unit [OF t] by simp_all
  have fq: "fl64 (a / b) = Some q" unfolding q_def using q01 
    by (intro fl64_small) (simp add: q_def)
  have m0: "0 \<le> m" unfolding m_def using q01 by (intro round64_nonneg) simp
  have m4: "m \<le> 4" unfolding m_def using round64_mono [of "q * 4" 4] q01
    by (simp add: round64_simps)
  have fm: "fl64 (q * 4) = Some m" unfolding m_def using m0 m4
    by (intro fl64_small) (simp add: m_def)
  have r1: "1 \<le> r" unfolding r_def using round64_mono [of 1 "1 + m"] m0
    by (simp add: round64_simps)
  have r5: "r \<le> 5" unfolding r_def using round64_mono [of "1 + m" 5] m0 m4
    by (simp add: round64_simps)
  have fr: "fl64 (1 + m) = Some r" unfolding r_def using r1 r5
    by (intro fl64_small) (simp add: r_def)
  have rad: "radius_B lo hi L = Some r"
    using fa fb fq fm fr bpos by (simp add: radius_B_def)
  have e1: "r = 1" if "L = lo"
  proof -
    from that have "a = 0" by (simp add: a_def round64_simps)
    then have "q = 0" by (simp add: q_def round64_simps)
    then have "m = 0" by (simp add: m_def round64_simps)
    then show ?thesis by (simp add: r_def round64_simps)
  qed
  have e5: "r = 5" if "L = hi"
  proof -
    from that have "a = b" by (simp add: a_def b_def)
    then have "q = 1" using bpos by (simp add: q_def round64_simps)
    then have "m = 4" by (simp add: m_def round64_simps)
    then show ?thesis by (simp add: r_def round64_simps)
  qed
  show ?thesis using fa fb fq fm fr rad r1 r5 e1 e5 bpos by blast
qed

lemma fl64_eqI:
  assumes "2 powr real_of_int e \<le> \<bar>x\<bar>" and "\<bar>x\<bar> < 2 powr (real_of_int e + 1)"
    and "- 1022 \<le> e" and "rne (x / 2 powr (real_of_int e - 52)) = n"
    and "real_of_int n * 2 powr (real_of_int e - 52) = y" and "\<bar>y\<bar> < 2 ^ 1024"
  shows "fl64 x = Some y"
  using round64_eqI [OF assms(1-4)] assms(5,6) by (simp add: fl64_def)

lemma fl64_0: "fl64 0 = Some 0"
  by (simp add: fl64_def round64_simps)

lemma fl64_1: "fl64 1 = Some 1"
  by (simp add: fl64_def round64_simps)

lemma fl64_5: "fl64 5 = Some 5"
  by (simp add: fl64_def round64_simps)

lemma fl64_4: "fl64 4 = Some 4"
  by (simp add: fl64_def round64_simps)

lemmas fl64_simps = fl64_0 fl64_1 fl64_4 fl64_5

lemma dyadic_doubles:
  "fl64 (5 / 4) = Some (5 / 4)" "fl64 (3 / 2) = Some (3 / 2)" "fl64 (7 / 4) = Some (7 / 4)"
  "fl64 (1 / 2) = Some (1 / 2)"
     apply (rule fl64_eqI [of 0 _ "5 * 2 ^ 50"]; simp add: rne_def powr_minus_divide)
    apply (rule fl64_eqI [of 0 _ "3 * 2 ^ 51"]; simp add: rne_def powr_minus_divide)
   apply (rule fl64_eqI [of 0 _ "7 * 2 ^ 50"]; simp add: rne_def powr_minus_divide)
  apply (rule fl64_eqI [of "- 1" _ "2 ^ 52"]; simp add: rne_def powr_minus_divide)
  done

lemma rounding_steps:
  "fl64 (1 / 2 ^ 60) = Some (1 / 2 ^ 60)"
  "fl64 (1 / 2 ^ 58) = Some (1 / 2 ^ 58)"
  "fl64 (1 + 1 / 2 ^ 58) = Some 1"
  "fl64 (1 - 1 / 2 ^ 53) = Some (1 - 1 / 2 ^ 53)"
  "fl64 (4 - 1 / 2 ^ 51) = Some (4 - 1 / 2 ^ 51)"
  "fl64 (5 - 1 / 2 ^ 51) = Some 5"
       apply (rule fl64_eqI [of "- 60" _ "2 ^ 52"]; simp add: rne_def powr_minus_divide)
      apply (rule fl64_eqI [of "- 58" _ "2 ^ 52"]; simp add: rne_def powr_minus_divide)
     apply (rule fl64_eqI [of 0 _ "2 ^ 52"]; simp add: rne_def powr_minus_divide)
    apply (rule fl64_eqI [of "- 1" _ "2 ^ 53 - 1"]; simp add: rne_def powr_minus_divide)
   apply (rule fl64_eqI [of 1 _ "2 ^ 53 - 1"]; simp add: rne_def powr_minus_divide)
  apply (rule fl64_eqI [of 2 _ "5 * 2 ^ 50"]; simp add: rne_def powr_minus_divide)
  done

lemma overflow_step: "fl64 (2 ^ 1024) = None"
proof -
  have "round64 (2 ^ 1024) = real_of_int (2 ^ 52) * 2 powr (real_of_int 1024 - 52)"
    by (rule round64_eqI) (simp_all add: rne_def)
  then have "round64 (2 ^ 1024) = 2 ^ 1024" by simp
  then show ?thesis by (simp add: fl64_def)
qed


text \<open>
  C2 (amended). Policy B (polarCoordVisualization.py): when the loaded levels are float64
  values, the smallest is below the largest and their difference does not overflow, the
  radius of the i-th loaded row, with level L, is 1 + ((L - min_level) / (max_level -
  min_level)) * 4 evaluated in float64, every operation rounded; it lies in [1, 5], is 1
  when L = min_level and 5 when L = max_level.
\<close>

theorem policy_B_radius_bounds:
  assumes "create_animated_polar_chart_B (Inr table) = Inr (Some ch)"
    and "min_level = Min (snd ` set (dropna_msl table))"
    and "max_level = Max (snd ` set (dropna_msl table))"
    and "min_level < max_level"
    and "\<forall>l \<in> snd ` set (dropna_msl table). fl64 l = Some l"
    and "fl64 (max_level - min_level) \<noteq> None"
    and "i < length (dropna_msl table)"
    and "dropna_msl table ! i = (y, L)"
  shows "amin (sea_levels ch) = Inr min_level \<and> amax (sea_levels ch) = Inr max_level
       \<and> (\<exists>a b q m r. fl64 (L - min_level) = Some a \<and> fl64 (max_level - min_level) = Some b
              \<and> b \<noteq> 0 \<and> fl64 (a / b) = Some q \<and> fl64 (q * 4) = Some m
              \<and> fl64 (1 + m) = Some r
              \<and> radii ch ! i = Some r
              \<and> 1 \<le> r \<and> r \<le> 5
              \<and> (L = min_level \<longrightarrow> r = 1)
              \<and> (L = max_level \<longrightarrow> r = 5))"
proof -
  note c = create_B_Some [OF assms(1)]
  have fin: "finite (snd ` set (dropna_msl table))"
    and ne: "snd ` set (dropna_msl table) \<noteq> {}" using c(1) by simp_all
  have mem: "L \<in> snd ` set (dropna_msl table)"
    using assms(7,8) by (metis nth_mem snd_conv image_eqI)
  have lo: "min_level \<le> L" and hi: "L \<le> max_level"
    using mem fin assms(2,3) by simp_all
  have dlo: "fl64 min_level = Some min_level"
    using assms(2,5) Min_in [OF fin ne] by blast
  have dhi: "fl64 max_level = Some max_level"
    using assms(3,5) Max_in [OF fin ne] by blast
  have m: "amin (sea_levels ch) = Inr min_level" "amax (sea_levels ch) = Inr max_level"
    using c(1,3) assms(2,3) by (simp_all add: amin_Min amax_Max)
  have r: "radii ch ! i = radius_B min_level max_level L"
    using c(5) assms(2,3,7,8) by simp
  from radius_B_ok [OF dlo dhi assms(4) lo hi assms(6)] r m show ?thesis
    by (metis (no_types, lifting))
qed

lemma sample_dyadic:
  "dropna_msl dyadic_table = [(2000, 5 / 4), (2001, 3 / 2), (2002, 7 / 4)]"
  by (simp add: dropna_msl_def dyadic_table_def row_def)

theorem policy_B_radius_bounds_witness:
  "\<exists>ch. create_animated_polar_chart_B (Inr dyadic_table) = Inr (Some ch)
      \<and> map snd (dropna_msl dyadic_table) = [1.25, 1.5, 1.75]
      \<and> fl64 1.25 = Some 1.25 \<and> fl64 1.5 = Some 1.5 \<and> fl64 1.75 = Some 1.75
      \<and> fl64 (1.75 - 1.25) = Some 0.5
      \<and> radii ch ! 0 = Some 1 \<and> radii ch ! 2 = Some 5"
proof -
  note d = sample_dyadic
  obtain ch where h: "create_animated_polar_chart_B (Inr dyadic_table) = Inr (Some ch)"
    using create_B_nonempty [of dyadic_table] by (auto simp: d)
  have lo: "(5 / 4 :: real) = Min (snd ` set (dropna_msl dyadic_table))"
    and hi: "(7 / 4 :: real) = Max (snd ` set (dropna_msl dyadic_table))"
    by (simp_all add: d)
  have lt: "(5 / 4 :: real) < 7 / 4" by simp
  have dbl: "\<forall>l \<in> snd ` set (dropna_msl dyadic_table). fl64 l = Some l"
    by (simp add: d dyadic_doubles)
  have rng: "fl64 (7 / 4 - 5 / 4) = Some (1 / 2)" using dyadic_doubles(4) by simp
  then have fin: "fl64 (7 / 4 - 5 / 4) \<noteq> None" by simp
  have i0: "0 < length (dropna_msl dyadic_table)"
    and i2: "2 < length (dropna_msl dyadic_table)"
    and e0: "dropna_msl dyadic_table ! 0 = (2000, 5 / 4)"
    and e2: "dropna_msl dyadic_table ! 2 = (2002, 7 / 4)"
    by (simp_all add: d)
  from policy_B_radius_bounds [OF h lo hi lt dbl fin i0 e0]
  have r0: "radii ch ! 0 = Some 1" by auto
  from policy_B_radius_bounds [OF h lo hi lt dbl fin i2 e2]
  have r2: "radii ch ! 2 = Some 5" by auto
  show ?thesis using h r0 r2 rng dyadic_doubles by (auto simp: d)
qed


lemma radius_rounding:
  "radius_B 0 1 0 = Some 1"
  "radius_B 0 1 (1 / 2 ^ 60) = Some 1"
  "radius_B 0 1 (1 - 1 / 2 ^ 53) = Some 5"
  "radius_B 0 1 1 = Some 5"
proof -
  show "radius_B 0 1 0 = Some 1" "radius_B 0 1 1 = Some 5"
    by (simp_all add: radius_B_def fl64_simps)
  have a: "(1 / 2 ^ 60) * 4 = (1 / 2 ^ 58 :: real)" by simp
  show "radius_B 0 1 (1 / 2 ^ 60) = Some 1"
    unfolding radius_B_def using rounding_steps(1,2,3) a by (simp add: fl64_simps)
  have b: "(1 - 1 / 2 ^ 53) * 4 = (4 - 1 / 2 ^ 51 :: real)"
    "1 + (4 - 1 / 2 ^ 51) = (5 - 1 / 2 ^ 51 :: real)" by simp_all
  show "radius_B 0 1 (1 - 1 / 2 ^ 53) = Some 5"
    unfolding radius_B_def using rounding_steps(4,5,6) b by (simp add: fl64_simps)
qed

lemma radius_overflow:
  "radius_B (- (2 ^ 1023)) (2 ^ 1023) (- (2 ^ 1023)) = Some 1"
  "radius_B (- (2 ^ 1023)) (2 ^ 1023) (2 ^ 1023) = None"
proof -
  have e: "2 ^ 1023 - - (2 ^ 1023) = (2 ^ 1024 :: real)" by simp
  show "radius_B (- (2 ^ 1023)) (2 ^ 1023) (- (2 ^ 1023)) = Some 1"
    unfolding radius_B_def e using overflow_step by (simp add: fl64_simps)
  show "radius_B (- (2 ^ 1023)) (2 ^ 1023) (2 ^ 1023) = None"
    unfolding radius_B_def e using overflow_step by (simp add: fl64_simps)
qed

text \<open>
  C2 as stated makes the radius 1 exactly when L = min_level and 5 exactly when
  L = max_level, on every dataset with min_level < max_level. On the levels 0, 2^-60,
  1 - 2^-53, 1 the rounded sums give radius 1 at the level 2^-60, above the minimum, and
  radius 5 at the level 1 - 2^-53, below the maximum. On the levels -2^1023, 2^1023 the
  difference overflows and the radius of the largest level is not finite.
\<close>

theorem radius_exactly_when_counterexample:
  "map snd (dropna_msl rounding_table) = [0, 1 / 2 ^ 60, 1 - 1 / 2 ^ 53, 1]
   \<and> map_sum id (map_option radii) (create_animated_polar_chart_B (Inr rounding_table))
       = Inr (Some [Some 1, Some 1, Some 5, Some 5])
   \<and> (1 / 2 ^ 60 :: real) \<noteq> 0 \<and> (1 - 1 / 2 ^ 53 :: real) \<noteq> 1
   \<and> map snd (dropna_msl overflow_table) = [- (2 ^ 1023), 2 ^ 1023]
   \<and> map_sum id (map_option radii) (create_animated_polar_chart_B (Inr overflow_table))
       = Inr (Some [Some 1, None])"
proof -
  have d: "dropna_msl rounding_table
             = [(2000, 0), (2001, 1 / 2 ^ 60), (2002, 1 - 1 / 2 ^ 53), (2003, 1)]"
    by (simp add: dropna_msl_def rounding_table_def row_def)
  have o: "dropna_msl overflow_table = [(2000, - (2 ^ 1023)), (2001, 2 ^ 1023)]"
    by (simp add: dropna_msl_def overflow_table_def row_def)
  have m: "amin (map snd (dropna_msl rounding_table)) = Inr 0"
    "amax (map snd (dropna_msl rounding_table)) = Inr 1"
    unfolding d by simp_all
  have n: "amin (map snd (dropna_msl overflow_table)) = Inr (- (2 ^ 1023))"
    "amax (map snd (dropna_msl overflow_table)) = Inr (2 ^ 1023)"
    unfolding o by simp_all
  have r: "map_sum id (map_option radii) (create_animated_polar_chart_B (Inr rounding_table))
       = Inr (Some [Some 1, Some 1, Some 5, Some 5])"
    unfolding create_animated_polar_chart_B_def load_sea_level_data_def
    using radius_rounding by (simp add: m) (simp add: d)
  have v: "map_sum id (map_option radii) (create_animated_polar_chart_B (Inr overflow_table))
       = Inr (Some [Some 1, None])"
    unfolding create_animated_polar_chart_B_def load_sea_level_data_def
    using radius_overflow by (simp add: n) (simp add: o)
  show ?thesis using r v by (simp add: d o)
qed

text \<open>
  C9. Policy B divides by max_level - min_level without a guard: on a non-empty dataset
  whose levels are all equal the chart is still built, minimum and maximum coincide, the
  divisor is zero and every radius is non-finite, so no radius lies in [1, 5].
\<close>

theorem policy_B_equal_levels_undefined:
  assumes "dropna_msl table \<noteq> []"
    and "\<forall>l \<in> snd ` set (dropna_msl table). l = c"
  shows "\<exists>ch min_level max_level.
           create_animated_polar_chart_B (Inr table) = Inr (Some ch)
           \<and> amin (sea_levels ch) = Inr min_level \<and> amax (sea_levels ch) = Inr max_level
           \<and> max_level - min_level = 0
           \<and> radii ch \<noteq> []
           \<and> (\<forall>r \<in> set (radii ch). r = None)"
proof -
  obtain ch where h: "create_animated_polar_chart_B (Inr table) = Inr (Some ch)"
    using create_B_nonempty [OF assms(1)] by blast
  note c = create_B_Some [OF h]
  have s: "snd ` set (dropna_msl table) = {c}"
    using assms by (cases "dropna_msl table") auto
  have m: "amin (sea_levels ch) = Inr c" "amax (sea_levels ch) = Inr c"
    using c(1,3) s by (simp_all add: amin_Min amax_Max)
  have "radii ch \<noteq> []" using c(1,5) by simp
  moreover have "\<forall>r \<in> set (radii ch). r = None"
  proof -
    have e: "radius_B c c c = None" by (simp add: radius_B_def fl64_simps)
    have "snd p = c" if "p \<in> set (dropna_msl table)" for p
      using that assms(2) by simp
    then show ?thesis using c(5) s e by (auto simp: case_prod_beta)
  qed
  ultimately show ?thesis using h m by force
qed

lemma dropna_msl_flat: "dropna_msl flat_table = [(2000, 1.35), (2001, 1.35)]"
  by (simp add: dropna_msl_def flat_table_def row_def)

theorem policy_B_equal_levels_undefined_witness:
  "dropna_msl flat_table \<noteq> [] \<and> snd ` set (dropna_msl flat_table) = {1.35}
   \<and> (\<exists>ch. create_animated_polar_chart_B (Inr flat_table) = Inr (Some ch)
          \<and> radii ch = [None, None])"
proof -
  have a: "dropna_msl flat_table \<noteq> []"
    and b: "\<forall>l \<in> snd ` set (dropna_msl flat_table). l = 135 / 100"
    by (simp_all add: dropna_msl_flat)
  from policy_B_equal_levels_undefined [OF a b]
  obtain ch where h: "create_animated_polar_chart_B (Inr flat_table) = Inr (Some ch)"
    and r: "\<forall>r \<in> set (radii ch). r = None"
    by blast
  have "length (radii ch) = 2"
    using create_B_Some(5) [OF h] by (simp add: dropna_msl_flat)
  then have "radii ch = [None, None]"
    using r by (cases "radii ch"; cases "tl (radii ch)") auto
  then show ?thesis using a h by (auto simp: dropna_msl_flat)
qed

section \<open>Properties of the loader and of the animation\<close>

text \<open>
  C7. When the CSV file does not exist, \<open>load_sea_level_data\<close> reports it and returns
  None, no exception leaves it, and both callers return without a chart: nothing is drawn.
\<close>

theorem missing_file_returns_none:
  "load_sea_level_data (Inl FileNotFoundError) = ([Data_file_not_found], Inr None)
   \<and> create_animated_polar_chart_A (Inl FileNotFoundError) = Inr None
   \<and> create_animated_polar_chart_B (Inl FileNotFoundError) = Inr None
   \<and> show_frames (create_animated_polar_chart_A (Inl FileNotFoundError)) frames = Inr None
   \<and> show_frames (create_animated_polar_chart_B (Inl FileNotFoundError)) frames = Inr None"
  by (simp add: load_sea_level_data_def create_animated_polar_chart_A_def
      create_animated_polar_chart_B_def show_frames_def)

lemma created_shape:
  assumes "create_animated_polar_chart_A (Inr table) = Inr (Some ch)
         \<or> create_animated_polar_chart_B (Inr table) = Inr (Some ch)"
    and "n = length (dropna_msl table)"
  shows "0 < n" "length (years ch) = n" "length (sea_levels ch) = n"
    "length (angles ch) = n" "length (radii ch) = n" "total_frames ch = n + 60"
  using assms create_A_Some [of table ch] create_B_Some [of table ch]
  by auto

lemma fold_add_label:
  "fold (add_label ch c) xs acc
     = acc @ map (\<lambda>i. (angles ch ! i, map_option (\<lambda>r. r + 0.15) (radii ch ! i), years ch ! i))
               (filter (\<lambda>i. i = 0 \<or> i = c \<or> years ch ! i mod 5 = 0) xs)"
  by (induction xs arbitrary: acc) (simp_all add: add_label_def)


lemma animate_later:
  assumes "0 < length (years ch)" and "0 < f" and "c = min f (length (years ch) - 1)"
  shows "\<exists>s. animate ch f st = Inr s
     \<and> line s = (take (c + 1) (angles ch), take (c + 1) (radii ch))
     \<and> points_offsets s = zip (take (c + 1) (angles ch)) (take (c + 1) (radii ch))
     \<and> points_array s = map (colour (variant ch) (years ch)) [0..<c + 1]
     \<and> year_texts s = fold (add_label ch c) [0..<c + 1] []
     \<and> current_point s = ([angles ch ! c], [radii ch ! c])
     \<and> start_point s = ([angles ch ! 0], [radii ch ! 0])
     \<and> info_text s = Current_info (years ch ! c) (years ch ! c div 10 * 10)
          (years ch ! c mod 10) (sea_levels ch ! c)
          (if shows_radius (variant ch) then Some (radii ch ! c) else None)
          (c + 1) (length (years ch)) (real (c + 1) / real (length (years ch)) * 100)"
  using assms by (simp add: animate_def Let_def)





lemma sample_A:
  "\<exists>ch. create_animated_polar_chart_A (Inr sample_table) = Inr (Some ch)"
  by (rule create_A_nonempty) (simp add: dropna_msl_sample)


text \<open>
  C4 (amended). On every frame f >= 1, with current visible index c = min f (n - 1), the
  points that receive a year label are, in index order, exactly the visible points
  (indices 0 to c) that are the first point, the last visible point, or have a calendar
  year divisible by 5; each label sits at the point's angle and its radius plus 0.15.
\<close>

theorem year_labels:
  assumes "create_animated_polar_chart_A (Inr table) = Inr (Some ch)
         \<or> create_animated_polar_chart_B (Inr table) = Inr (Some ch)"
    and "n = length (dropna_msl table)"
    and "1 \<le> f"
    and "c = min f (n - 1)"
  shows "years ch = map fst (dropna_msl table)
     \<and> (\<exists>s. animate ch f st = Inr s
          \<and> year_texts s
              = map (\<lambda>i. (angles ch ! i, map_option (\<lambda>r. r + 0.15) (radii ch ! i),
                          years ch ! i))
                  (filter (\<lambda>i. i = 0 \<or> i = c \<or> years ch ! i mod 5 = 0) [0..<c + 1]))"
proof -
  note sh = created_shape [OF assms(1,2)]
  have pos: "0 < length (years ch)" and f: "0 < f" using sh assms(3) by simp_all
  have c: "c = min f (length (years ch) - 1)" using assms(4) sh(2) by simp
  have y: "years ch = map fst (dropna_msl table)"
    using assms(1) create_A_Some(2) create_B_Some(2) by blast
  from animate_later [OF pos f c, of st]
  obtain s where s: "animate ch f st = Inr s"
    and t: "year_texts s = fold (add_label ch c) [0..<c + 1] []"
    by blast
  from t have "year_texts s
      = map (\<lambda>i. (angles ch ! i, map_option (\<lambda>r. r + 0.15) (radii ch ! i), years ch ! i))
          (filter (\<lambda>i. i = 0 \<or> i = c \<or> years ch ! i mod 5 = 0) [0..<c + 1])"
    by (simp only: fold_add_label append_Nil)
  with s y show ?thesis by blast
qed

theorem year_labels_witness:
  "\<exists>ch. create_animated_polar_chart_A (Inr sample_table) = Inr (Some ch)
     \<and> 3 = length (dropna_msl sample_table) \<and> (1::nat) \<le> 2 \<and> (2::nat) = min 2 (3 - 1)
     \<and> years ch = [1954, 1955, 1957]
     \<and> (\<exists>s. animate ch 2 initial_artists = Inr s
          \<and> map (snd \<circ> snd) (year_texts s) = [1954, 1955, 1957])"
proof -
  obtain ch where h: "create_animated_polar_chart_A (Inr sample_table) = Inr (Some ch)"
    using sample_A by blast
  have n: "3 = length (dropna_msl sample_table)" by (simp add: dropna_msl_sample)
  have f: "(1::nat) \<le> 2" and c: "(2::nat) = min 2 (3 - 1)" by simp_all
  have u: "[0..<2 + 1] = [0, 1, 2]" by (simp add: upt_rec)
  from year_labels [OF disjI1 [OF h] n f c, of initial_artists]
  show ?thesis using h n by (auto simp: dropna_msl_sample u)
qed

text \<open>
  C4 as stated labels the indices divisible by 5. On the years 1954, 1955, 1957 at frame 2
  the point of index 1 is labelled (its year is 1955), although 1 is neither divisible by
  5, nor the first, nor the last visible index.
\<close>

theorem labels_by_index_counterexample:
  "map_sum id (map_option (map (snd \<circ> snd) \<circ> year_texts))
     (show_frames (create_animated_polar_chart_A (Inr sample_table)) [2])
     = Inr (Some [1954, 1955, 1957])
   \<and> map fst (dropna_msl sample_table) ! 1 = 1955
   \<and> \<not> ((1::nat) mod 5 = 0 \<or> (1::nat) = 0 \<or> (1::nat) = min 2 (3 - 1))"
proof -
  have u: "[0..<3] = [0, 1, 2]" by (simp add: upt_rec)
  show ?thesis
    by (simp add: dropna_msl_sample create_animated_polar_chart_A_def
        load_sea_level_data_def show_frames_def animate_def initial_artists_def
        add_label_def Let_def u)
qed

section \<open>Properties of the crawler\<close>

lemma to_level_sentinel: "to_level p (unsentinel (JStr ''***'')) = Inr None"
  by (simp add: to_level_def unsentinel_def)

lemma to_level_falsy: "\<not> truthy x \<Longrightarrow> to_level p (unsentinel x) = Inr None"
  by (simp add: to_level_def unsentinel_def)

lemma parse_record_six:
  "parse_record p (JArr [y, f1, f2, f3, f4, f5]) =
     bind_err (py_int p y) (\<lambda>yr.
     bind_err (to_level p (unsentinel f1)) (\<lambda>msl.
     bind_err (to_level p (unsentinel f2)) (\<lambda>mhhw.
     bind_err (to_level p (unsentinel f3)) (\<lambda>mlhw.
     bind_err (to_level p (unsentinel f4)) (\<lambda>mhlw.
     bind_err (to_level p (unsentinel f5)) (\<lambda>mllw.
     Inr \<lparr> Year = yr, Mean_Sea_Level_m = msl, Mean_Higher_High_Water_m = mhhw,
           Mean_Lower_High_Water_m = mlhw, Mean_Higher_Low_Water_m = mhlw,
           Mean_Lower_Low_Water_m = mllw \<rparr>))))))"
  by (simp add: parse_record_def bind_err_def)

lemma parse_record_missing_msl:
  assumes "parse_record p (JArr [y, f1, f2, f3, f4, f5]) = Inr r"
    and "to_level p (unsentinel g) = Inr None"
  shows "parse_record p (JArr [y, g, f2, f3, f4, f5]) = Inr (r \<lparr> Mean_Sea_Level_m := None \<rparr>)"
  using assms unfolding parse_record_six
  by (auto simp: bind_err_def split: sum.splits)

lemma crawl_Some:
  assumes "crawl_hko_sea_level_data p response = Some out"
  shows "simple_csv out = simple_df (full_csv out)"
  using assms
  by (auto simp: crawl_hko_sea_level_data_def crawl_body_def bind_err_def Let_def
      split: sum.splits option.splits if_splits)

lemma length_dropna_msl:
  "length (dropna_msl df) = length (filter (\<lambda>r. Mean_Sea_Level_m r \<noteq> None) df)"
  by (induction df) (auto simp: dropna_msl_def List.map_filter_def)

lemma bind_err_Inr: "bind_err m f = Inr r \<longleftrightarrow> (\<exists>x. m = Inr x \<and> f x = Inr r)"
  by (cases m) (simp_all add: bind_err_def)

lemma parse_record_msl:
  assumes "parse_record p year_record = Inr r"
    and "getitem year_record 1 = Inr x"
  shows "to_level p (unsentinel x) = Inr (Mean_Sea_Level_m r)"
  using assms
  by (auto simp: parse_record_def bind_err_Inr Let_def)

lemma parse_record_sentinel:
  assumes "parse_record p year_record = Inr r"
    and "getitem year_record 1 = Inr (JStr ''***'')"
  shows "Mean_Sea_Level_m r = None"
  using parse_record_msl [OF assms] by (simp add: to_level_sentinel)

lemma parse_record_falsy:
  assumes "parse_record p year_record = Inr r"
    and "getitem year_record 1 = Inr x" and "\<not> truthy x"
  shows "Mean_Sea_Level_m r = None"
  using parse_record_msl [OF assms(1,2)] by (simp add: to_level_falsy [OF assms(3)])

text \<open>
  C6. In the crawler a mean-sea-level field equal to the sentinel is converted to a missing
  value, with no exception and no float: a record that parses keeps parsing, with the level
  missing, when its second field is replaced by the sentinel. When the crawl succeeds, the
  simplified output holds exactly the (year, level) pairs of the rows whose level is not
  missing, as many as there are such rows.
\<close>

theorem sentinel_is_missing_and_dropped:
  assumes "crawl_hko_sea_level_data p response = Some out"
  shows "to_level p (unsentinel (JStr ''***'')) = Inr None
     \<and> (parse_record p year_record = Inr r' \<and> getitem year_record 1 = Inr (JStr ''***'')
          \<longrightarrow> Mean_Sea_Level_m r' = None)
     \<and> (parse_record p (JArr [y, msl, mhhw, mlhw, mhlw, mllw]) = Inr r \<longrightarrow>
          parse_record p (JArr [y, JStr ''***'', mhhw, mlhw, mhlw, mllw])
            = Inr (r \<lparr> Mean_Sea_Level_m := None \<rparr>))
     \<and> set (simple_csv out)
          = {(Year r, l) | r l. r \<in> set (full_csv out) \<and> Mean_Sea_Level_m r = Some l}
     \<and> length (simple_csv out)
          = length (filter (\<lambda>r. Mean_Sea_Level_m r \<noteq> None) (full_csv out))"
proof -
  have a: "parse_record p year_record = Inr r' \<and> getitem year_record 1 = Inr (JStr ''***'')
          \<longrightarrow> Mean_Sea_Level_m r' = None"
    using parse_record_sentinel by blast
  have b: "parse_record p (JArr [y, msl, mhhw, mlhw, mhlw, mllw]) = Inr r \<longrightarrow>
          parse_record p (JArr [y, JStr ''***'', mhhw, mlhw, mhlw, mllw])
            = Inr (r \<lparr> Mean_Sea_Level_m := None \<rparr>)"
    using parse_record_missing_msl [OF _ to_level_sentinel] by blast
  have c: "set (simple_csv out)
          = {(Year r, l) | r l. r \<in> set (full_csv out) \<and> Mean_Sea_Level_m r = Some l}"
    "length (simple_csv out)
          = length (filter (\<lambda>r. Mean_Sea_Level_m r \<noteq> None) (full_csv out))"
    using crawl_Some [OF assms] by (simp_all add: simple_df_def dropna_msl_set length_dropna_msl)
  show ?thesis using a b c to_level_sentinel by blast
qed

lemma sample_crawl:
  "crawl_hko_sea_level_data sample_builtins (Inr sample_payload) = Some sample_output"
  by (simp add: crawl_hko_sea_level_data_def crawl_body_def bind_err_def sample_payload_def
      sample_builtins_def parse_record_def to_level_def unsentinel_def simple_df_def
      dropna_msl_def Let_def sample_output_def)

lemma sample_record:
  "parse_record sample_builtins
     (JArr [JStr ''2024'', JStr ''1.410'', JStr ''1.750'', JStr ''***'', JStr ''***'',
            JStr ''0.650''])
   = Inr \<lparr> Year = 2024, Mean_Sea_Level_m = Some 1.41, Mean_Higher_High_Water_m = Some 1.75,
            Mean_Lower_High_Water_m = None, Mean_Higher_Low_Water_m = None,
            Mean_Lower_Low_Water_m = Some 0.65 \<rparr>"
  by (simp add: bind_err_def sample_builtins_def parse_record_def to_level_def
      unsentinel_def Let_def)

theorem sentinel_is_missing_and_dropped_witness:
  "crawl_hko_sea_level_data sample_builtins (Inr sample_payload) = Some sample_output
     \<and> length (simple_csv sample_output)
         = length (filter (\<lambda>r. Mean_Sea_Level_m r \<noteq> None) (full_csv sample_output))
     \<and> parse_record sample_builtins
          (JArr [JStr ''2024'', JStr ''***'', JStr ''1.750'', JStr ''***'', JStr ''***'',
                 JStr ''0.650''])
        = Inr \<lparr> Year = 2024, Mean_Sea_Level_m = None, Mean_Higher_High_Water_m = Some 1.75,
            Mean_Lower_High_Water_m = None, Mean_Higher_Low_Water_m = None,
            Mean_Lower_Low_Water_m = Some 0.65 \<rparr>"
proof -
  note t = sentinel_is_missing_and_dropped [OF sample_crawl,
      where y = "JStr ''2024''" and msl = "JStr ''1.410''" and mhhw = "JStr ''1.750''"
        and mlhw = "JStr ''***''" and mhlw = "JStr ''***''" and mllw = "JStr ''0.650''"]
  note p = t [THEN conjunct2, THEN conjunct2, THEN conjunct1, THEN mp, OF sample_record]
  note l = t [THEN conjunct2, THEN conjunct2, THEN conjunct2, THEN conjunct2]
  from p have "parse_record sample_builtins
          (JArr [JStr ''2024'', JStr ''***'', JStr ''1.750'', JStr ''***'', JStr ''***'',
                 JStr ''0.650''])
        = Inr \<lparr> Year = 2024, Mean_Sea_Level_m = None, Mean_Higher_High_Water_m = Some 1.75,
            Mean_Lower_High_Water_m = None, Mean_Higher_Low_Water_m = None,
            Mean_Lower_Low_Water_m = Some 0.65 \<rparr>"
    by simp
  with l sample_crawl show ?thesis by blast
qed

text \<open>
  C10. A water-level field is converted to a missing value whenever it is falsy, not only
  when it is the sentinel: the empty string and the numbers 0 and 0.0 give a missing value,
  so a record whose mean sea level is the number 0 is recorded with the level missing, not
  0.0.
\<close>

theorem falsy_field_is_missing:
  assumes "\<not> truthy x"
  shows "to_level p (unsentinel x) = Inr None
     \<and> to_level p (unsentinel (JStr [])) = Inr None
     \<and> to_level p (unsentinel (JInt 0)) = Inr None
     \<and> to_level p (unsentinel (JFloat 0)) = Inr None
     \<and> (parse_record p year_record = Inr r \<and> getitem year_record 1 = Inr x
          \<longrightarrow> Mean_Sea_Level_m r = None)
     \<and> (parse_record p year_record = Inr r \<and> getitem year_record 1 = Inr (JInt 0)
          \<longrightarrow> Mean_Sea_Level_m r = None \<and> Mean_Sea_Level_m r \<noteq> Some 0)"
proof -
  have z: "\<not> truthy (JInt 0)" by simp
  have a: "parse_record p year_record = Inr r \<and> getitem year_record 1 = Inr x
          \<longrightarrow> Mean_Sea_Level_m r = None"
    using parse_record_falsy [OF _ _ assms] by blast
  have b: "parse_record p year_record = Inr r \<and> getitem year_record 1 = Inr (JInt 0)
          \<longrightarrow> Mean_Sea_Level_m r = None \<and> Mean_Sea_Level_m r \<noteq> Some 0"
    using parse_record_falsy [OF _ _ z] by auto
  have c: "to_level p (unsentinel x) = Inr None"
    "to_level p (unsentinel (JStr [])) = Inr None"
    "to_level p (unsentinel (JInt 0)) = Inr None"
    "to_level p (unsentinel (JFloat 0)) = Inr None"
    using assms by (simp_all add: to_level_falsy)
  show ?thesis using a b c by blast
qed

theorem falsy_field_is_missing_witness:
  "\<not> truthy (JInt 0)
   \<and> to_level sample_builtins (unsentinel (JInt 0)) = Inr None
   \<and> getitem (JArr [JInt 2024, JInt 0, JInt 0, JStr [], JFloat 0, JNull]) 1 = Inr (JInt 0)
   \<and> parse_record sample_builtins (JArr [JInt 2024, JInt 0, JInt 0, JStr [], JFloat 0, JNull])
      = Inr (row 2024 None)"
proof -
  have f: "\<not> truthy (JInt 0)" by simp
  have r: "parse_record sample_builtins
             (JArr [JInt 2024, JInt 0, JInt 0, JStr [], JFloat 0, JNull])
           = Inr (row 2024 None)"
    by (simp add: bind_err_def parse_record_def to_level_def unsentinel_def Let_def row_def)
  from falsy_field_is_missing [OF f, of sample_builtins
      "JArr [JInt 2024, JInt 0, JInt 0, JStr [], JFloat 0, JNull]" "row 2024 None"]
  show ?thesis using r by simp
qed

section \<open>Properties of the analyzer\<close>

lemma report_loop: "report_decades_loop ss w = w @ filter (\<lambda>s. 5 \<le> count s) ss"
  by (induction ss arbitrary: w) simp_all

lemma report_eq_chart: "report_decades df = chart_decades df"
  by (simp add: report_decades_def chart_decades_def report_loop)

lemma group_values_analysis: "group_values analysis_table 2020 = [1.30, 1.32, 1.35, 1.33, 1.38]"
  by (simp add: group_values_def analysis_table_def row_def decade_of_def)

lemma keys_analysis: "sort (remdups (map (\<lambda>r. decade_of (Year r)) analysis_table)) = [2020]"
  by (simp add: analysis_table_def row_def decade_of_def)

lemma trend_analysis: "long_term_trend analysis_table = Some (17 / 1000, - 33038 / 1000)"
  by (simp add: long_term_trend_def polyfit1_def analysis_table_def row_def Let_def
      del: not_None_eq)


lemma Decade_groupby:
  "Decade ` set (groupby_decade df) = (\<lambda>r. decade_of (Year r)) ` set df"
  by (simp add: groupby_decade_def image_image)

lemma groupby_row:
  assumes "s \<in> set (groupby_decade df)"
  shows "mean s = series_mean (group_values df (Decade s))"
    "std s = series_std (group_values df (Decade s))"
    "count s = length (group_values df (Decade s))"
  using assms by (auto simp: groupby_decade_def)

lemma group_values_nonempty:
  assumes "group_values df d \<noteq> []"
  shows "d \<in> (\<lambda>r. decade_of (Year r)) ` set df"
proof -
  from assms have "filter (\<lambda>r. decade_of (Year r) = d) df \<noteq> []"
    by (auto simp: group_values_def)
  then obtain r where "r \<in> set df" "decade_of (Year r) = d"
    by (auto simp: filter_empty_conv)
  then show ?thesis by blast
qed

lemma chart_decades_iff:
  "d \<in> Decade ` set (chart_decades df) \<longleftrightarrow> 5 \<le> length (group_values df d)"
proof
  assume "d \<in> Decade ` set (chart_decades df)"
  then obtain s where s: "s \<in> set (groupby_decade df)" "5 \<le> count s" "Decade s = d"
    by (auto simp: chart_decades_def)
  then show "5 \<le> length (group_values df d)" using groupby_row(3) [OF s(1)] by simp
next
  assume a: "5 \<le> length (group_values df d)"
  then have "group_values df d \<noteq> []" by auto
  then have "d \<in> Decade ` set (groupby_decade df)"
    using group_values_nonempty Decade_groupby by blast
  then obtain s where s: "s \<in> set (groupby_decade df)" "Decade s = d" by blast
  then have "5 \<le> count s" using a groupby_row(3) [OF s(1)] by simp
  then show "d \<in> Decade ` set (chart_decades df)"
    using s by (force simp: chart_decades_def)
qed


lemma length_group_values:
  "length (group_values df d)
     = length (filter (\<lambda>r. (Year r div 10) * 10 = d \<and> Mean_Sea_Level_m r \<noteq> None) df)"
  by (induction df) (auto simp: group_values_def List.map_filter_def decade_of_def)

lemma groupby_analysis_list:
  "groupby_decade analysis_table
     = [\<lparr> Decade = 2020, mean = Some 1.336,
          std = series_std [1.30, 1.32, 1.35, 1.33, 1.38], count = 5 \<rparr>]"
  by (simp add: groupby_decade_def keys_analysis group_values_analysis series_mean_def)

lemma std_analysis:
  "series_std [1.30, 1.32, 1.35, 1.33, 1.38] = Some (sqrt (93 / 100000))"
  by (simp add: series_std_def Let_def power2_eq_square)

lemma groupby_fifties:
  "map Decade (groupby_decade fifties_table) = [1950]
   \<and> map count (groupby_decade fifties_table) = [6]"
  by (simp add: groupby_decade_def group_values_def fifties_table_def row_def decade_of_def)

lemma iloc0_Inr: "iloc0 xs = Inr x \<Longrightarrow> xs \<noteq> []"
  by (cases xs) simp_all

lemma analysis_Inr:
  assumes "create_comprehensive_analysis np df = Inr fig"
  shows "decade_bars fig = chart_decades df"
    and "\<exists>r \<in> set df. Year r = 2020" and "\<exists>r \<in> set df. Year r = 2024"
proof -
  from assms obtain l2020 l2024 where
    a: "iloc0 (map Mean_Sea_Level_m (filter (\<lambda>r. Year r = 2020) df)) = Inr l2020"
    and b: "iloc0 (map Mean_Sea_Level_m (filter (\<lambda>r. Year r = 2024) df)) = Inr l2024"
    and c: "decade_bars fig = chart_decades df"
    by (auto simp: create_comprehensive_analysis_def bind_err_Inr Let_def split: if_splits)
  show "decade_bars fig = chart_decades df" by (rule c)
  from iloc0_Inr [OF a] show "\<exists>r \<in> set df. Year r = 2020"
    by (auto simp: filter_empty_conv)
  from iloc0_Inr [OF b] show "\<exists>r \<in> set df. Year r = 2024"
    by (auto simp: filter_empty_conv)
qed

lemma report_Inr:
  assumes "generate_summary_report np df = Inr rep"
  shows "decade_lines rep = report_decades df"
  using assms
  by (auto simp: generate_summary_report_def bind_err_Inr split: if_splits)

lemma sample_analysis:
  "create_comprehensive_analysis sample_numpy analysis_table
     = Inr \<lparr> trend = (Some (17 / 1000), Some (- 33038 / 1000)),
             recent_trend = Some (Some (17 / 1000), Some (- 33038 / 1000)),
             range_trend = None,
             decade_bars = [\<lparr> Decade = 2020, mean = Some 1.336,
                               std = Some (sqrt (93 / 100000)), count = 5 \<rparr>],
             level_2020 = Some 1.30, level_2024 = Some 1.38 \<rparr>"
proof -
  have c: "chart_decades analysis_table
             = [\<lparr> Decade = 2020, mean = Some 1.336,
                  std = Some (sqrt (93 / 100000)), count = 5 \<rparr>]"
    unfolding chart_decades_def groupby_analysis_list std_analysis by simp
  show ?thesis
    unfolding create_comprehensive_analysis_def c
    by (simp add: analysis_table_def row_def sample_numpy_def bind_err_def polyfit1_def
        Let_def del: not_None_eq)
qed

text \<open>
  C8 (amended). The analyzer groups the rows by decade = (year div 10) * 10, one group for
  each decade that occurs. The count of a group is the number of its rows with a mean sea
  level; its mean is the sum of these levels over the count (nan with no level); its
  standard deviation is the square root of the sum of the squared deviations from the mean
  over count - 1 (nan with fewer than two levels). Whenever
  \<open>create_comprehensive_analysis\<close> returns its figure, which needs a row for 2020 and
  one for 2024, a decade is among the bars if and only if its count is at least 5; whenever
  \<open>generate_summary_report\<close> completes, it writes a decade if and only if its count is
  at least 5.
\<close>

theorem decadal_aggregation:
  "(d \<in> Decade ` set (groupby_decade df) \<longleftrightarrow> (\<exists>r \<in> set df. (Year r div 10) * 10 = d))
   \<and> (s \<in> set (groupby_decade df)
        \<and> xs = List.map_filter Mean_Sea_Level_m
                  (filter (\<lambda>r. (Year r div 10) * 10 = Decade s) df) \<longrightarrow>
         count s = length xs
       \<and> count s = length (filter (\<lambda>r. (Year r div 10) * 10 = Decade s
                                        \<and> Mean_Sea_Level_m r \<noteq> None) df)
       \<and> mean s = (if xs = [] then None else Some (sum_list xs / real (length xs)))
       \<and> std s = (if length xs < 2 then None
                   else Some (sqrt (sum_list (map (\<lambda>x. (x - sum_list xs / real (length xs)) ^ 2) xs)
                                    / real (length xs - 1)))))
   \<and> (create_comprehensive_analysis np df = Inr fig \<longrightarrow>
         (d \<in> Decade ` set (decade_bars fig) \<longleftrightarrow>
            5 \<le> length (filter (\<lambda>r. (Year r div 10) * 10 = d
                                     \<and> Mean_Sea_Level_m r \<noteq> None) df))
       \<and> (\<exists>r \<in> set df. Year r = 2020) \<and> (\<exists>r \<in> set df. Year r = 2024))
   \<and> (generate_summary_report np df = Inr rep \<longrightarrow>
         (d \<in> Decade ` set (decade_lines rep) \<longleftrightarrow>
            5 \<le> length (filter (\<lambda>r. (Year r div 10) * 10 = d
                                     \<and> Mean_Sea_Level_m r \<noteq> None) df)))"
proof -
  have a: "d \<in> Decade ` set (groupby_decade df) \<longleftrightarrow> (\<exists>r \<in> set df. (Year r div 10) * 10 = d)"
    unfolding Decade_groupby by (auto simp: decade_of_def)
  have g: "group_values df e = List.map_filter Mean_Sea_Level_m
             (filter (\<lambda>r. (Year r div 10) * 10 = e) df)" for e
    by (simp add: group_values_def decade_of_def)
  have b: "count s = length xs
       \<and> count s = length (filter (\<lambda>r. (Year r div 10) * 10 = Decade s
                                        \<and> Mean_Sea_Level_m r \<noteq> None) df)
       \<and> mean s = (if xs = [] then None else Some (sum_list xs / real (length xs)))
       \<and> std s = (if length xs < 2 then None
                   else Some (sqrt (sum_list (map (\<lambda>x. (x - sum_list xs / real (length xs)) ^ 2) xs)
                                    / real (length xs - 1))))"
    if "s \<in> set (groupby_decade df)
        \<and> xs = List.map_filter Mean_Sea_Level_m
                  (filter (\<lambda>r. (Year r div 10) * 10 = Decade s) df)"
  proof -
    from that have s: "s \<in> set (groupby_decade df)" and x: "xs = group_values df (Decade s)"
      using g by simp_all
    show ?thesis
      using groupby_row [OF s] length_group_values [of df "Decade s"]
      unfolding x [symmetric] by (simp add: series_mean_def series_std_def Let_def)
  qed
  have c: "d \<in> Decade ` set (chart_decades df) \<longleftrightarrow>
         5 \<le> length (filter (\<lambda>r. (Year r div 10) * 10 = d
                                  \<and> Mean_Sea_Level_m r \<noteq> None) df)"
    using chart_decades_iff [of d df] length_group_values [of df d] by simp
  have e: "(d \<in> Decade ` set (decade_bars fig) \<longleftrightarrow>
            5 \<le> length (filter (\<lambda>r. (Year r div 10) * 10 = d
                                     \<and> Mean_Sea_Level_m r \<noteq> None) df))
       \<and> (\<exists>r \<in> set df. Year r = 2020) \<and> (\<exists>r \<in> set df. Year r = 2024)"
    if "create_comprehensive_analysis np df = Inr fig"
    using analysis_Inr [OF that] c by simp
  have f: "d \<in> Decade ` set (decade_lines rep) \<longleftrightarrow>
            5 \<le> length (filter (\<lambda>r. (Year r div 10) * 10 = d
                                     \<and> Mean_Sea_Level_m r \<noteq> None) df)"
    if "generate_summary_report np df = Inr rep"
    using report_Inr [OF that] c by (simp add: report_eq_chart)
  show ?thesis using a b e f by blast
qed


lemma sample_report:
  "generate_summary_report sample_numpy analysis_table
     = Inr \<lparr> report_trend = (Some (17 / 1000), Some (- 33038 / 1000)),
             decade_lines = [\<lparr> Decade = 2020, mean = Some 1.336,
                               std = Some (sqrt (93 / 100000)), count = 5 \<rparr>] \<rparr>"
proof -
  have c: "report_decades analysis_table
             = [\<lparr> Decade = 2020, mean = Some 1.336,
                  std = Some (sqrt (93 / 100000)), count = 5 \<rparr>]"
    unfolding report_eq_chart chart_decades_def groupby_analysis_list std_analysis by simp
  show ?thesis
    unfolding generate_summary_report_def c
    by (simp add: analysis_table_def row_def sample_numpy_def bind_err_def polyfit1_def
        Let_def del: not_None_eq)
qed

theorem decadal_aggregation_witness:
  "groupby_decade analysis_table
     = [\<lparr> Decade = 2020, mean = Some 1.336, std = Some (sqrt (93 / 100000)), count = 5 \<rparr>]
   \<and> List.map_filter Mean_Sea_Level_m
        (filter (\<lambda>r. (Year r div 10) * 10 = 2020) analysis_table)
       = [1.30, 1.32, 1.35, 1.33, 1.38]
   \<and> Some (sqrt (93 / 100000))
       = (if length [1.30, 1.32, 1.35, 1.33, 1.38 :: real] < 2 then None
          else Some (sqrt (sum_list (map (\<lambda>x. (x - sum_list [1.30, 1.32, 1.35, 1.33, 1.38]
                                                  / real (length [1.30, 1.32, 1.35, 1.33, 1.38 :: real])) ^ 2)
                                      [1.30, 1.32, 1.35, 1.33, 1.38])
                           / real (length [1.30, 1.32, 1.35, 1.33, 1.38 :: real] - 1))))
   \<and> (\<exists>fig. create_comprehensive_analysis sample_numpy analysis_table = Inr fig
          \<and> 2020 \<in> Decade ` set (decade_bars fig))
   \<and> (\<exists>rep. generate_summary_report sample_numpy analysis_table = Inr rep
          \<and> 2020 \<in> Decade ` set (decade_lines rep))"
proof -
  have g: "groupby_decade analysis_table
     = [\<lparr> Decade = 2020, mean = Some 1.336, std = Some (sqrt (93 / 100000)), count = 5 \<rparr>]"
    unfolding groupby_analysis_list std_analysis by simp
  have x: "List.map_filter Mean_Sea_Level_m
        (filter (\<lambda>r. (Year r div 10) * 10 = 2020) analysis_table)
       = [1.30, 1.32, 1.35, 1.33, 1.38]"
    by (simp add: analysis_table_def row_def)
  have f: "(5::nat) \<le> length (filter (\<lambda>r. (Year r div 10) * 10 = 2020
                                  \<and> Mean_Sea_Level_m r \<noteq> None) analysis_table)"
    by (simp add: analysis_table_def row_def del: not_None_eq)
  note t = decadal_aggregation [where d = 2020 and df = analysis_table
      and np = sample_numpy, OF]
  from t [THEN conjunct2, THEN conjunct2, THEN conjunct1, THEN mp, OF sample_analysis] f
  have bars: "\<exists>fig. create_comprehensive_analysis sample_numpy analysis_table = Inr fig
          \<and> 2020 \<in> Decade ` set (decade_bars fig)"
    using sample_analysis by blast
  from t [THEN conjunct2, THEN conjunct2, THEN conjunct2, THEN mp, OF sample_report] f
  have lines: "\<exists>rep. generate_summary_report sample_numpy analysis_table = Inr rep
          \<and> 2020 \<in> Decade ` set (decade_lines rep)"
    using sample_report by blast
  have m: "\<lparr> Decade = 2020, mean = Some 1.336, std = Some (sqrt (93 / 100000)),
             count = 5 \<rparr> \<in> set (groupby_decade analysis_table)
         \<and> [1.30, 1.32, 1.35, 1.33, 1.38]
             = List.map_filter Mean_Sea_Level_m
                 (filter (\<lambda>r. (Year r div 10) * 10
                     = Decade \<lparr> Decade = 2020, mean = Some 1.336,
                         std = Some (sqrt (93 / 100000)), count = 5 \<rparr>) analysis_table)"
    unfolding g using x by simp
  from t [where s = "\<lparr> Decade = 2020, mean = Some 1.336, std = Some (sqrt (93 / 100000)),
             count = 5 \<rparr>" and xs = "[1.30, 1.32, 1.35, 1.33, 1.38]",
          THEN conjunct2, THEN conjunct1, THEN mp, OF m]
  have sd: "Some (sqrt (93 / 100000))
       = (if length [1.30, 1.32, 1.35, 1.33, 1.38 :: real] < 2 then None
          else Some (sqrt (sum_list (map (\<lambda>x. (x - sum_list [1.30, 1.32, 1.35, 1.33, 1.38]
                                                  / real (length [1.30, 1.32, 1.35, 1.33, 1.38 :: real])) ^ 2)
                                      [1.30, 1.32, 1.35, 1.33, 1.38])
                           / real (length [1.30, 1.32, 1.35, 1.33, 1.38 :: real] - 1))))"
    by simp
  show ?thesis using g x sd bars lines by blast
qed

text \<open>
  C8 as stated holds for every loaded dataset. On the years 1954 to 1959 the 1950s group
  has six observed years, yet \<open>create_comprehensive_analysis\<close> ends in IndexError at the
  lookup of the year 2020 and displays no decade.
\<close>

theorem display_without_2020_counterexample:
  "create_comprehensive_analysis sample_numpy fifties_table = Inl IndexError
   \<and> map Decade (groupby_decade fifties_table) = [1950]
   \<and> map count (groupby_decade fifties_table) = [6]"
proof -
  have "create_comprehensive_analysis sample_numpy fifties_table = Inl IndexError"
    by (simp add: create_comprehensive_analysis_def fifties_table_def row_def
        sample_numpy_def bind_err_def polyfit1_def Let_def del: not_None_eq)
  then show ?thesis using groupby_fifties by simp
qed

text \<open>
  C5 (amended). On the years 2020 to 2024 with levels 1.30, 1.32, 1.35, 1.33, 1.38 the
  first-degree fit has the positive slope 0.017, and the decadal filter keeps the 2020s
  group, whose count is 5, in the chart and in the report.
\<close>

theorem analyzer_on_2020_2024:
  "map_option fst (long_term_trend analysis_table) = Some 0.017
   \<and> (0::real) < 0.017
   \<and> map Decade (chart_decades analysis_table) = [2020]
   \<and> map count (chart_decades analysis_table) = [5]
   \<and> map Decade (report_decades analysis_table) = [2020]"
  by (simp add: trend_analysis report_eq_chart chart_decades_def groupby_analysis_list)

text \<open>
  C5 as stated excludes the 2020s group from display; the group has five observed years
  and is displayed.
\<close>

theorem decade_2020s_excluded_counterexample:
  "2020 \<in> Decade ` set (chart_decades analysis_table)
   \<and> 2020 \<in> Decade ` set (report_decades analysis_table)"
proof -
  have "5 \<le> length (group_values analysis_table 2020)"
    by (simp add: group_values_analysis)
  then show ?thesis
    using chart_decades_iff [of 2020 analysis_table] by (simp add: report_eq_chart)
qed

end
